theory Spec2Isabelle
  imports Main "HOL-Library.Char_ord" "HOL-Library.List_Lexorder"
    "HOL-Library.Code_Target_Numeral"
begin

section \<open>Binary codec primitives (package @helios-lang/cbor)\<close>

text \<open>
  The ledger code builds every wire encoding from the primitives of the CBOR package it
  imports. They are modelled here as RFC 8949 defines them and as the package computes
  them for definite-length items. A byte is a JavaScript number of an array
  \<^verbatim>\<open>number[]\<close>, kept as a natural number below 256.
\<close>

type_synonym bytes = "nat list"

text \<open>\<^verbatim>\<open>encodeIntBE\<close> of the codec utilities: the base-256 digits, most significant
  first; zero is the single byte 0.\<close>

fun digits256 :: "nat \<Rightarrow> bytes" where
  "digits256 n = (if n = 0 then [] else digits256 (n div 256) @ [n mod 256])"

declare digits256.simps [simp del]

definition encodeIntBE :: "nat \<Rightarrow> bytes" where
  "encodeIntBE n = (if n = 0 then [0] else digits256 n)"

definition padLeft :: "nat \<Rightarrow> bytes \<Rightarrow> bytes" where
  "padLeft k bs = replicate (k - length bs) 0 @ bs"

text \<open>\<^verbatim>\<open>encodeDefHead(m, n)\<close>: the major type \<open>m\<close> in the top three bits of the
  first byte, and the argument \<open>n\<close> in the low five bits or in the 1, 2, 4 or 8 bytes
  that follow. The package throws for \<open>n \<ge> 2^64\<close>; no JavaScript array or byte string
  is that long, so the last branch stands for the 8-byte form.\<close>

definition encodeDefHead :: "nat \<Rightarrow> nat \<Rightarrow> bytes" where
  "encodeDefHead m n =
     (if n \<le> 23 then [32 * m + n]
      else if n \<le> 255 then [32 * m + 24, n]
      else if n \<le> 65535 then [32 * m + 25, (n div 256) mod 256, n mod 256]
      else if n \<le> 4294967295 then (32 * m + 26) # padLeft 4 (encodeIntBE n)
      else (32 * m + 27) # padLeft 8 (encodeIntBE n))"

definition encodeBytes :: "bytes \<Rightarrow> bytes" where
  "encodeBytes bs = encodeDefHead 2 (length bs) @ bs"

text \<open>\<^verbatim>\<open>encodeInt\<close>: unsigned and negative integers up to 64 bits in the head, larger
  ones as the bignum tags 2 and 3 around a byte string.\<close>

definition encodeInt :: "int \<Rightarrow> bytes" where
  "encodeInt n =
     (if 0 \<le> n \<and> n \<le> 2 ^ 64 - 1 then encodeDefHead 0 (nat n)
      else if 2 ^ 64 \<le> n then encodeDefHead 6 2 @ encodeBytes (encodeIntBE (nat n))
      else if n \<le> - 1 \<and> - (2 ^ 64) \<le> n then encodeDefHead 1 (nat (- n - 1))
      else encodeDefHead 6 3 @ encodeBytes (encodeIntBE (nat (- n - 1))))"

definition encodeTag :: "nat \<Rightarrow> bytes" where
  "encodeTag t = encodeDefHead 6 t"

definition encodeBool :: "bool \<Rightarrow> bytes" where
  "encodeBool b = (if b then [245] else [244])"

definition encodeNull :: bytes where
  "encodeNull = [246]"

definition encodeNullOption :: "('a \<Rightarrow> bytes) \<Rightarrow> 'a option \<Rightarrow> bytes" where
  "encodeNullOption enc x = (case x of None \<Rightarrow> encodeNull | Some v \<Rightarrow> enc v)"

definition encodeDefList :: "bytes list \<Rightarrow> bytes" where
  "encodeDefList items = encodeDefHead 4 (length items) @ concat items"

definition encodeTuple :: "bytes list \<Rightarrow> bytes" where
  "encodeTuple items = encodeDefList items"

definition encodeMap :: "(bytes \<times> bytes) list \<Rightarrow> bytes" where
  "encodeMap pairs =
     encodeDefHead 5 (length pairs) @ concat (map (\<lambda>(k, v). k @ v) pairs)"

definition encodeObjectIKey :: "(int \<times> bytes) list \<Rightarrow> bytes" where
  "encodeObjectIKey entries = encodeMap (map (\<lambda>(k, v). (encodeInt k, v)) entries)"

text \<open>The wire-level framing a decoder dispatches on: the major type of the first byte
  (4 for a list or tuple, 5 for a map or object).\<close>

definition majorType :: "bytes \<Rightarrow> nat option" where
  "majorType bs = (case bs of [] \<Rightarrow> None | b # _ \<Rightarrow> Some (b div 32))"

definition isTuple :: "bytes \<Rightarrow> bool" where
  "isTuple bs = (majorType bs = Some 4)"

definition isObject :: "bytes \<Rightarrow> bool" where
  "isObject bs = (majorType bs = Some 5)"

section \<open>Data model\<close>

text \<open>Script data of the virtual machine package (@helios-lang/uplc).\<close>

datatype UplcData =
    IntData int
  | ByteArrayData bytes
  | ListData "UplcData list"
  | MapData "(UplcData \<times> UplcData) list"
  | ConstrData nat "UplcData list"

text \<open>A versioned script program (\<^verbatim>\<open>UplcProgramV1 | UplcProgramV2\<close> of the virtual
  machine package), seen through what the ledger code reads of it: its version tag, its
  own encoding and its hash.\<close>

record UplcProgram =
  plutusVersionTag :: nat
  programCbor :: bytes
  programHash :: bytes

text \<open>Modelled from the spec: Address (Address.js is not among the sources): the bytes of
  the address and its spending credential, the hash of a key or of a script. The staking
  credential and the network tag, which \<^verbatim>\<open>Tx\<close> does not read, stay in the bytes.\<close>

datatype Credential = PubKeyCredential bytes | ValidatorCredential bytes

record Address =
  addressBytes :: bytes
  spendingCredential :: Credential

definition pubKeyHash :: "Address \<Rightarrow> bytes option" where
  "pubKeyHash a = (case spendingCredential a of PubKeyCredential h \<Rightarrow> Some h | _ \<Rightarrow> None)"

definition validatorHash :: "Address \<Rightarrow> bytes option" where
  "validatorHash a =
     (case spendingCredential a of ValidatorCredential h \<Rightarrow> Some h | _ \<Rightarrow> None)"

text \<open>Modelled from the spec: Value (the money module is not among the sources): a signed
  quantity of the base unit and a multi-asset ledger from policy id and asset name to a
  signed quantity, kept as an association list on the pair (policy id, asset name).\<close>

type_synonym AssetClass = "bytes \<times> bytes"
type_synonym Assets = "(AssetClass \<times> int) list"

record Value =
  lovelace :: int
  assets :: Assets

text \<open>Modelled from the spec: TxOutputDatum (TxOutputDatum.js is not among the sources):
  an inline value or a hash reference; a hash reference may carry the data it stands
  for.\<close>

datatype TxOutputDatum = InlineDatum UplcData | HashedDatum bytes "UplcData option"

fun isHash :: "TxOutputDatum \<Rightarrow> bool" where
  "isHash (HashedDatum h d) = True"
| "isHash (InlineDatum d) = False"

fun datumHash :: "TxOutputDatum \<Rightarrow> bytes option" where
  "datumHash (HashedDatum h d) = Some h"
| "datumHash (InlineDatum d) = None"

fun dataOfDatum :: "TxOutputDatum \<Rightarrow> UplcData option" where
  "dataOfDatum (HashedDatum h d) = d"
| "dataOfDatum (InlineDatum d) = Some d"

text \<open>\<^verbatim>\<open>class TxOutput\<close>: the field \<^verbatim>\<open>value\<close> is named \<open>ovalue\<close> here.\<close>

record TxOutput =
  address :: Address
  ovalue :: Value
  datum :: "TxOutputDatum option"
  refScript :: "UplcProgram option"

text \<open>The encoders of the entities whose classes are not among the sources
  (\<^verbatim>\<open>Address.toCbor\<close>, \<^verbatim>\<open>Value.toCbor\<close>, \<^verbatim>\<open>TxOutputDatum.toCbor\<close>,
  \<^verbatim>\<open>DatumHash.toCbor\<close>) are parameters of the model.\<close>

record OutputCodec =
  addressToCbor :: "Address \<Rightarrow> bytes"
  valueToCbor :: "Value \<Rightarrow> bytes"
  datumToCbor :: "TxOutputDatum \<Rightarrow> bytes"
  datumHashToCbor :: "bytes \<Rightarrow> bytes"

section \<open>TxOutput\<close>

text \<open>The condition under which \<^verbatim>\<open>TxOutput.toCbor\<close> takes its first branch;
  \<open>strict\<close> is the global \<^verbatim>\<open>config.STRICT_BABBAGE\<close>.\<close>

definition compactForm :: "bool \<Rightarrow> TxOutput \<Rightarrow> bool" where
  "compactForm strict out =
     ((case datum out of None \<Rightarrow> True | Some d \<Rightarrow> isHash d)
      \<and> refScript out = None \<and> \<not> strict)"

definition refScriptEntry :: "UplcProgram \<Rightarrow> bytes" where
  "refScriptEntry s =
     encodeTag 24 @
     encodeBytes (encodeTuple [encodeInt (int (plutusVersionTag s)), programCbor s])"

definition TxOutput_toCbor :: "OutputCodec \<Rightarrow> bool \<Rightarrow> TxOutput \<Rightarrow> bytes" where
  "TxOutput_toCbor c strict out =
     (if compactForm strict out then
        encodeTuple
          ([addressToCbor c (address out), valueToCbor c (ovalue out)] @
           (case datum out of
              Some (HashedDatum h d) \<Rightarrow> [datumHashToCbor c h]
            | _ \<Rightarrow> []))
      else
        encodeObjectIKey
          ([(0, addressToCbor c (address out)), (1, valueToCbor c (ovalue out))] @
           (case datum out of None \<Rightarrow> [] | Some d \<Rightarrow> [(2, datumToCbor c d)]) @
           (case refScript out of None \<Rightarrow> [] | Some s \<Rightarrow> [(3, refScriptEntry s)])))"

section \<open>Errors and protocol parameters\<close>

text \<open>Every \<^verbatim>\<open>throw new Error(...)\<close> of the code is a value of this type; a
  function that may throw returns \<open>TxError + 'a\<close>, with \<open>Inl\<close> for the error.\<close>

datatype TxError =
    MissingParam string
  | UnexpectedEncoding
  | TxTooBig
  | FeeTooSmall int int
  | NotBalancedLovelace int
  | NotBalancedAssets
  | TooManyCollateralInputs
  | CollateralOutputNotSet
  | CollateralNotOnlyLovelace
  | NotEnoughCollateral
  | CannotConvertToBigInt
  | UnnecessaryCollateral
  | OutputNotSet
  | DuplicateScripts
  | TooManyScripts
  | MissingScript bytes
  | UnusedScript bytes
  | ExpectedSome
  | SpendingMemTooHigh "bytes \<times> nat" int int
  | SpendingCpuTooHigh "bytes \<times> nat" int int
  | MintingMemTooHigh bytes int int
  | MintingCpuTooHigh bytes int int
  | UnhandledRedeemerKind
  | NoRedeemers
  | WrongScriptDataHash
  | NoScriptDataHash
  | UnexpectedScriptDataHash

text \<open>The raw parameter snapshot read by \<^verbatim>\<open>NetworkParamsHelper\<close>: the fields of
  \<^verbatim>\<open>params.latestParams\<close> the getters look up, each possibly undefined. The numbers
  of a snapshot are integers here (\<^verbatim>\<open>BigInt(x)\<close> throws on any other number).\<close>

record NetworkParams =
  txFeeFixed :: "int option"
  txFeePerByte :: "int option"
  utxoCostPerByte :: "int option"
  collateralPercentage :: "int option"
  maxCollateralInputsParam :: "int option"
  maxTxExecutionUnitsMemory :: "int option"
  maxTxExecutionUnitsSteps :: "int option"
  maxTxSizeParam :: "int option"
  stakeAddressDepositParam :: "int option"
  costModelPlutusScriptV2 :: "(string \<times> int) list option"

definition expectSome :: "'a option \<Rightarrow> string \<Rightarrow> TxError + 'a" where
  "expectSome x msg = (case x of None \<Rightarrow> Inl (MissingParam msg) | Some v \<Rightarrow> Inr v)"

definition txFeeParams :: "NetworkParams \<Rightarrow> TxError + (int \<times> int)" where
  "txFeeParams p =
     (case expectSome (txFeeFixed p) ''txFeeFixed'' of
        Inl e \<Rightarrow> Inl e
      | Inr a \<Rightarrow>
          (case expectSome (txFeePerByte p) ''txFeePerByte'' of
             Inl e \<Rightarrow> Inl e
           | Inr b \<Rightarrow> Inr (a, b)))"


definition minCollateralPct :: "NetworkParams \<Rightarrow> TxError + int" where
  "minCollateralPct p = expectSome (collateralPercentage p) ''collateralPercentage''"

definition maxCollateralInputs :: "NetworkParams \<Rightarrow> TxError + int" where
  "maxCollateralInputs p = expectSome (maxCollateralInputsParam p) ''maxCollateralInputs''"

definition maxTxSize :: "NetworkParams \<Rightarrow> TxError + int" where
  "maxTxSize p = expectSome (maxTxSizeParam p) ''maxTxSize''"

definition stakeAddressDeposit :: "NetworkParams \<Rightarrow> TxError + int" where
  "stakeAddressDeposit p = expectSome (stakeAddressDepositParam p) ''stakeAddressDeposit''"

section \<open>Minimum deposit of an output\<close>


definition setLovelace :: "int \<Rightarrow> TxOutput \<Rightarrow> TxOutput" where
  "setLovelace n out = out\<lparr>ovalue := (ovalue out)\<lparr>lovelace := n\<rparr>\<rparr>"





section \<open>Transaction entities\<close>

text \<open>Modelled from the spec: the entities a transaction is composed of (TxInput.js,
  TxBody.js, TxWitnesses.js, TxRedeemer.js, Signature.js, DCert.js and TxMetadata.js are
  not among the sources), with the fields \<^verbatim>\<open>Tx\<close> reads: an input with the output
  it spends, when known; certificates that register or deregister a stake address, or do
  neither; redeemers for the four purposes spend, mint, certificate and withdraw, each
  with an index, a data payload and a declared cost. The field \<open>allScripts\<close> of the
  witnesses stands for the getter of that name.\<close>

type_synonym TxOutputId = "bytes \<times> nat"

record TxInput =
  utxoId :: TxOutputId
  origOutput :: "TxOutput option"

datatype DCert = Register | Deregister | Delegate

fun isRegister :: "DCert \<Rightarrow> bool" where
  "isRegister Register = True"
| "isRegister _ = False"

fun isDeregister :: "DCert \<Rightarrow> bool" where
  "isDeregister Deregister = True"
| "isDeregister _ = False"

record Cost =
  mem :: int
  cpu :: int

datatype RedeemerKind = Spending | Minting | Certifying | Rewarding

record TxRedeemer =
  kind :: RedeemerKind
  index :: nat
  rdata :: UplcData
  cost :: Cost

definition isSpending :: "TxRedeemer \<Rightarrow> bool" where
  "isSpending r = (kind r = Spending)"

definition isMinting :: "TxRedeemer \<Rightarrow> bool" where
  "isMinting r = (kind r = Minting)"

text \<open>A signature: the public key, its hash (the getter \<^verbatim>\<open>pubKeyHash\<close> that
  \<^verbatim>\<open>Tx.validateSignatures\<close> reads) and the signature bytes.\<close>

record Signature =
  sigPubKey :: bytes
  sigPubKeyHash :: bytes
  sigBytes :: bytes

record TxBody =
  inputs :: "TxInput list"
  refInputs :: "TxInput list"
  outputs :: "TxOutput list"
  fee :: int
  minted :: Assets
  dcerts :: "DCert list"
  withdrawals :: "(bytes \<times> int) list"
  signers :: "bytes list"
  collateral :: "TxInput list"
  collateralReturn :: "TxOutput option"
  scriptDataHash :: "bytes option"
  metadataHash :: "bytes option"

record TxWitnesses =
  signatures :: "Signature list"
  allScripts :: "UplcProgram list"
  datums :: "UplcData list"
  redeemers :: "TxRedeemer list"

datatype TxMetadata = TxMetadata "(int \<times> bytes) list"

text \<open>\<^verbatim>\<open>class Tx\<close>.\<close>

record Tx =
  body :: TxBody
  witnesses :: TxWitnesses
  valid :: bool
  metadata :: "TxMetadata option"

text \<open>What \<^verbatim>\<open>Tx\<close> calls and the sources do not contain is a parameter of the model:
  the encoders and decoders of \<^verbatim>\<open>TxBody\<close>, \<^verbatim>\<open>TxWitnesses\<close> and \<^verbatim>\<open>TxMetadata\<close>
  (a decoder reads its item from the front of the stream and returns the rest), the
  other methods of \<^verbatim>\<open>TxBody\<close> and \<^verbatim>\<open>TxWitnesses\<close> that \<^verbatim>\<open>Tx\<close> uses (but
  for the two that insert and remove the placeholder signatures, modelled with
  \<^verbatim>\<open>Tx.calcSize\<close>), the script virtual machine, the script context builders and the
  hash function.\<close>

record Collaborators =
  bodyToCbor :: "TxBody \<Rightarrow> bytes"
  witnessesToCbor :: "TxWitnesses \<Rightarrow> bytes"
  metadataToCbor :: "TxMetadata \<Rightarrow> bytes"
  bodyFromCbor :: "bytes \<Rightarrow> (TxBody \<times> bytes) option"
  witnessesFromCbor :: "bytes \<Rightarrow> (TxWitnesses \<times> bytes) option"
  metadataFromCbor :: "bytes \<Rightarrow> (TxMetadata \<times> bytes) option"
  countUniqueSigners :: "TxBody \<Rightarrow> nat"
  countNonDummySignatures :: "TxWitnesses \<Rightarrow> nat"
  calcExFee :: "NetworkParams \<Rightarrow> TxWitnesses \<Rightarrow> TxError + int"
  isSmart :: "TxWitnesses \<Rightarrow> bool"
  allScriptHashes :: "TxBody \<Rightarrow> bytes list"
  findUplcProgram :: "TxWitnesses \<Rightarrow> bytes \<Rightarrow> UplcProgram option"
  toTxUplcData ::
    "NetworkParams \<Rightarrow> TxBody \<Rightarrow> TxRedeemer list \<Rightarrow> UplcData list \<Rightarrow> UplcData"
  spendingContext :: "TxRedeemer \<Rightarrow> TxOutputId \<Rightarrow> UplcData \<Rightarrow> UplcData"
  mintingContext :: "TxRedeemer \<Rightarrow> bytes \<Rightarrow> UplcData \<Rightarrow> UplcData"
  evalProgram :: "UplcProgram \<Rightarrow> UplcData list \<Rightarrow> Cost"
  redeemerToCbor :: "TxRedeemer \<Rightarrow> bytes"
  listDataToCbor :: "UplcData list \<Rightarrow> bytes"
  blake2b :: "bytes \<Rightarrow> bytes"

section \<open>Decoding primitives (package @helios-lang/cbor)\<close>

definition decodeIntBE :: "bytes \<Rightarrow> nat" where
  "decodeIntBE bs = foldl (\<lambda>acc b. acc * 256 + b) 0 bs"

text \<open>\<^verbatim>\<open>decodeDefHead\<close>: the major type, the argument and the rest of the stream.\<close>

definition readArg :: "nat \<Rightarrow> nat \<Rightarrow> bytes \<Rightarrow> (nat \<times> nat \<times> bytes) option" where
  "readArg m w rest =
     (if length rest < w then None else Some (m, decodeIntBE (take w rest), drop w rest))"

definition decodeDefHead :: "bytes \<Rightarrow> (nat \<times> nat \<times> bytes) option" where
  "decodeDefHead bs =
     (case bs of
        [] \<Rightarrow> None
      | b # rest \<Rightarrow>
          (let m = b div 32; k = b mod 32 in
           if k \<le> 23 then Some (m, k, rest)
           else if k = 24 then readArg m 1 rest
           else if k = 25 then readArg m 2 rest
           else if k = 26 then readArg m 4 rest
           else if k = 27 then readArg m 8 rest
           else None))"

definition decodeBool :: "bytes \<Rightarrow> (bool \<times> bytes) option" where
  "decodeBool bs =
     (case bs of
        [] \<Rightarrow> None
      | b # rest \<Rightarrow>
          if b = 245 then Some (True, rest)
          else if b = 244 then Some (False, rest)
          else None)"

definition decodeNullOption ::
  "(bytes \<Rightarrow> ('a \<times> bytes) option) \<Rightarrow> bytes \<Rightarrow> ('a option \<times> bytes) option" where
  "decodeNullOption decodeSome bs =
     (case bs of
        [] \<Rightarrow> None
      | b # rest \<Rightarrow>
          if b = 246 then Some (None, rest)
          else (case decodeSome bs of None \<Rightarrow> None | Some (x, r) \<Rightarrow> Some (Some x, r)))"

text \<open>The start of a list: \<open>Some n\<close> for a definite list of \<open>n\<close> items, \<open>None\<close> for an
  indefinite one (first byte 159), which a break byte 255 ends.\<close>

definition decodeListStart :: "bytes \<Rightarrow> (nat option \<times> bytes) option" where
  "decodeListStart bs =
     (case bs of
        [] \<Rightarrow> None
      | b # rest \<Rightarrow>
          if b = 159 then Some (None, rest)
          else (case decodeDefHead bs of
                  None \<Rightarrow> None
                | Some (m, n, r) \<Rightarrow> if m = 4 then Some (Some n, r) else None))"

text \<open>An item of an indefinite list is read only when the next byte is not the break;
  peeking at an exhausted stream throws.\<close>

definition itemOf ::
  "bool \<Rightarrow> (bytes \<Rightarrow> ('a \<times> bytes) option) \<Rightarrow> bytes \<Rightarrow> ('a \<times> bytes) option" where
  "itemOf indef dec bs =
     (if indef \<and> (case bs of [] \<Rightarrow> True | b # rest \<Rightarrow> b = 255) then None else dec bs)"

section \<open>Tx: encoding and decoding\<close>

definition Tx_toCbor :: "Collaborators \<Rightarrow> bool \<Rightarrow> Tx \<Rightarrow> bytes" where
  "Tx_toCbor env forFeeCalculation tx =
     (if forFeeCalculation then
        encodeTuple
          [bodyToCbor env (body tx),
           witnessesToCbor env (witnesses tx),
           encodeNullOption (metadataToCbor env) (metadata tx)]
      else
        encodeTuple
          [bodyToCbor env (body tx),
           witnessesToCbor env (witnesses tx),
           encodeBool True,
           encodeNullOption (metadataToCbor env) (metadata tx)])"

text \<open>\<^verbatim>\<open>Tx.fromCbor\<close>: \<^verbatim>\<open>decodeTuple\<close> with four item decoders and no optional
  one accepts a list of exactly four items; every failure of the decoding is the one
  error \<open>UnexpectedEncoding\<close>.\<close>

definition Tx_fromCbor :: "Collaborators \<Rightarrow> bytes \<Rightarrow> TxError + Tx" where
  "Tx_fromCbor env bs =
     (case decodeListStart bs of
        None \<Rightarrow> Inl UnexpectedEncoding
      | Some (n, s0) \<Rightarrow>
          if n \<noteq> None \<and> n \<noteq> Some 4 then Inl UnexpectedEncoding
          else
            (case itemOf (n = None) (bodyFromCbor env) s0 of
               None \<Rightarrow> Inl UnexpectedEncoding
             | Some (b, s1) \<Rightarrow>
            (case itemOf (n = None) (witnessesFromCbor env) s1 of
               None \<Rightarrow> Inl UnexpectedEncoding
             | Some (w, s2) \<Rightarrow>
            (case itemOf (n = None) decodeBool s2 of
               None \<Rightarrow> Inl UnexpectedEncoding
             | Some (v, s3) \<Rightarrow>
            (case itemOf (n = None) (decodeNullOption (metadataFromCbor env)) s3 of
               None \<Rightarrow> Inl UnexpectedEncoding
             | Some (m, s4) \<Rightarrow>
                 if n = None \<and> (case s4 of [] \<Rightarrow> True | b # r \<Rightarrow> b \<noteq> 255)
                 then Inl UnexpectedEncoding
                 else Inr \<lparr>body = b, witnesses = w, valid = v, metadata = m\<rparr>)))))"

section \<open>Tx: size and fee\<close>

definition countMissingSignatures :: "Collaborators \<Rightarrow> Tx \<Rightarrow> int" where
  "countMissingSignatures env tx =
     int (countUniqueSigners env (body tx)) - int (countNonDummySignatures env (witnesses tx))"

text \<open>Modelled from the spec: \<^verbatim>\<open>TxWitnesses.addDummySignatures\<close> and
  \<^verbatim>\<open>TxWitnesses.removeDummySignatures\<close>, which \<^verbatim>\<open>Tx.calcSize\<close> calls and which are
  not among the sources. The spec says that placeholder signatures are inserted and
  removed afterward: here a placeholder is the signature of all zeros,
  \<open>addDummySignatures n\<close> appends \<open>n\<close> placeholders to the signature list, and
  \<open>removeDummySignatures n\<close> removes the last \<open>n\<close> placeholders of the list. A count
  that is not positive adds and removes nothing.\<close>

definition dummySignature :: Signature where
  "dummySignature =
     \<lparr>sigPubKey = replicate 32 0, sigPubKeyHash = replicate 28 0, sigBytes = replicate 64 0\<rparr>"

fun dropDummies :: "nat \<Rightarrow> Signature list \<Rightarrow> Signature list" where
  "dropDummies n [] = []"
| "dropDummies n (x # xs) =
     (if n = 0 then x # xs
      else if x = dummySignature then dropDummies (n - 1) xs
      else x # dropDummies n xs)"

definition addDummySignatures :: "int \<Rightarrow> TxWitnesses \<Rightarrow> TxWitnesses" where
  "addDummySignatures n w = w\<lparr>signatures := signatures w @ replicate (nat n) dummySignature\<rparr>"

definition removeDummySignatures :: "int \<Rightarrow> TxWitnesses \<Rightarrow> TxWitnesses" where
  "removeDummySignatures n w =
     w\<lparr>signatures := rev (dropDummies (nat n) (rev (signatures w)))\<rparr>"

text \<open>\<^verbatim>\<open>Tx.calcSize\<close> mutates the witnesses in place; the model returns the size and
  the transaction as the call leaves it.\<close>

definition calcSize :: "Collaborators \<Rightarrow> bool \<Rightarrow> Tx \<Rightarrow> nat \<times> Tx" where
  "calcSize env forFeeCalculation tx =
     (let nDummy = (if forFeeCalculation then countMissingSignatures env tx else 0);
          tx1 = (if forFeeCalculation
                 then tx\<lparr>witnesses := addDummySignatures nDummy (witnesses tx)\<rparr>
                 else tx);
          s = length (Tx_toCbor env forFeeCalculation tx1);
          tx2 = (if forFeeCalculation
                 then tx1\<lparr>witnesses := removeDummySignatures nDummy (witnesses tx1)\<rparr>
                 else tx1)
      in (s, tx2))"

definition calcMinFee :: "Collaborators \<Rightarrow> NetworkParams \<Rightarrow> Tx \<Rightarrow> TxError + (int \<times> Tx)" where
  "calcMinFee env params tx =
     (case txFeeParams params of
        Inl e \<Rightarrow> Inl e
      | Inr (a, b) \<Rightarrow>
          (case calcSize env True tx of
             (sz, tx') \<Rightarrow>
               (let sizeFee = a + int sz * b in
                case calcExFee env params (witnesses tx') of
                  Inl e \<Rightarrow> Inl e
                | Inr exFee \<Rightarrow> Inr (sizeFee + exFee, tx'))))"

definition validateFee :: "Collaborators \<Rightarrow> NetworkParams \<Rightarrow> Tx \<Rightarrow> TxError + Tx" where
  "validateFee env params tx =
     (case calcMinFee env params tx of
        Inl e \<Rightarrow> Inl e
      | Inr (minFee, tx') \<Rightarrow>
          if minFee > fee (body tx') then Inl (FeeTooSmall minFee (fee (body tx')))
          else Inr tx')"

definition validateSize :: "Collaborators \<Rightarrow> NetworkParams \<Rightarrow> Tx \<Rightarrow> TxError + Tx" where
  "validateSize env params tx =
     (case maxTxSize params of
        Inl e \<Rightarrow> Inl e
      | Inr maxSize \<Rightarrow>
          (case calcSize env False tx of
             (sz, tx') \<Rightarrow> if int sz > maxSize then Inl TxTooBig else Inr tx'))"

text \<open>The key hashes of which \<^verbatim>\<open>Tx.validateSignatures\<close> demands a signature: the
  signers of the body and the key-hash spending credentials of the inputs and of the
  collateral inputs. The required signers not yet signing are those, each once, that no
  signature among the witnesses carries.\<close>

definition requiredSigners :: "TxBody \<Rightarrow> bytes list" where
  "requiredSigners b =
     signers b @
     List.map_filter
       (\<lambda>i. case origOutput i of None \<Rightarrow> None | Some out \<Rightarrow> pubKeyHash (address out))
       (inputs b @ collateral b)"

definition signersNotYetSigning :: "Tx \<Rightarrow> bytes list" where
  "signersNotYetSigning tx =
     filter (\<lambda>h. h \<notin> set (map sigPubKeyHash (signatures (witnesses tx))))
       (remdups (requiredSigners (body tx)))"

section \<open>Double-precision arithmetic\<close>

text \<open>A JavaScript number is an IEEE 754 double: 53 significant bits, every operation
  rounded to the nearest double, ties to the even significand. The doubles that
  \<^verbatim>\<open>Tx.validateCollateral\<close> meets are integers, but for one quotient by 100, so they
  are kept as integers here.\<close>

text \<open>The number of bits of a natural number.\<close>

fun bitLength :: "nat \<Rightarrow> nat" where
  "bitLength n = (if n = 0 then 0 else bitLength (n div 2) + 1)"

declare bitLength.simps [simp del]

text \<open>The integer nearest to \<open>num / den\<close>, a tie going to the even one.\<close>

definition roundHalfEven :: "nat \<Rightarrow> nat \<Rightarrow> nat" where
  "roundHalfEven num den =
     (let q = num div den; r = num mod den in
      if 2 * r < den then q
      else if den < 2 * r then q + 1
      else if even q then q else q + 1)"

text \<open>The double nearest to an integer (\<^verbatim>\<open>Number(n)\<close> of a bigint, and the rounding of
  an exact integer product): an integer of at most 53 bits is a double; a longer one is
  rounded at its 53rd bit. \<open>None\<close> is \<^verbatim>\<open>Infinity\<close>, which the rounding gives from
  \<open>2^1024\<close> on, that is when the result has more than 1024 bits.\<close>

definition toDouble :: "int \<Rightarrow> int option" where
  "toDouble n =
     (let k = int (bitLength (nat \<bar>n\<bar>)) - 53;
          v = (if k \<le> 0 then n
               else sgn n * int (roundHalfEven (nat \<bar>n\<bar>) (2 ^ nat k)) * 2 ^ nat k)
      in if bitLength (nat \<bar>v\<bar>) \<le> 1024 then Some v else None)"

text \<open>The exponent \<open>e\<close> of the double nearest to \<open>a / d\<close>, for positive \<open>a\<close> and \<open>d\<close>:
  the one with \<open>2^52 \<le> a / (d * 2^e) < 2^53\<close>. With \<open>s\<close> the difference of the bit
  lengths, \<open>a / d\<close> lies between \<open>2^(s-1)\<close> and \<open>2^(s+1)\<close>.\<close>

definition quotientExponent :: "nat \<Rightarrow> nat \<Rightarrow> int" where
  "quotientExponent a d =
     (let s = int (bitLength a) - int (bitLength d)
      in if a * 2 ^ nat (- s) < d * 2 ^ nat s then s - 53 else s - 52)"

text \<open>\<^verbatim>\<open>Math.ceil(p / d)\<close> for a double \<open>p\<close> that is an integer and a positive integer
  \<open>d\<close>: the quotient is rounded to the nearest double \<open>m * 2^e\<close>, whose ceiling is taken
  (the ceiling of a double is a double). A quotient that is not zero is at least
  \<open>1 / d\<close> in magnitude, far above the subnormal doubles.\<close>

definition ceilOfQuotient :: "int \<Rightarrow> nat \<Rightarrow> int" where
  "ceilOfQuotient p d =
     (if p = 0 then 0
      else
        (let a = nat \<bar>p\<bar>;
             e = quotientExponent a d;
             m = int (roundHalfEven (a * 2 ^ nat (- e)) (d * 2 ^ nat e))
         in if 0 \<le> e then sgn p * m * 2 ^ nat e
            else - ((- (sgn p * m)) div 2 ^ nat (- e))))"

section \<open>Value arithmetic\<close>

text \<open>Modelled from the spec: the operations of \<^verbatim>\<open>Value\<close> and of its asset ledger
  (the money module is not among the sources). Addition and subtraction merge the two
  ledgers quantity by quantity and prune the entries that come out zero; a ledger is
  zero when no entry remains.\<close>

definition assetQty :: "Assets \<Rightarrow> AssetClass \<Rightarrow> int" where
  "assetQty a k = (case map_of a k of None \<Rightarrow> 0 | Some q \<Rightarrow> q)"

definition assetsMerge :: "(int \<Rightarrow> int \<Rightarrow> int) \<Rightarrow> Assets \<Rightarrow> Assets \<Rightarrow> Assets" where
  "assetsMerge f a b =
     filter (\<lambda>(k, q). q \<noteq> 0)
       (map (\<lambda>k. (k, f (assetQty a k) (assetQty b k))) (remdups (map fst a @ map fst b)))"

definition Assets_isZero :: "Assets \<Rightarrow> bool" where
  "Assets_isZero a = (a = [])"

definition newValue :: "int \<Rightarrow> Value" where
  "newValue n = \<lparr>lovelace = n, assets = []\<rparr>"

definition Value_add :: "Value \<Rightarrow> Value \<Rightarrow> Value" where
  "Value_add a b =
     \<lparr>lovelace = lovelace a + lovelace b, assets = assetsMerge (+) (assets a) (assets b)\<rparr>"

definition Value_subtract :: "Value \<Rightarrow> Value \<Rightarrow> Value" where
  "Value_subtract a b =
     \<lparr>lovelace = lovelace a - lovelace b, assets = assetsMerge (-) (assets a) (assets b)\<rparr>"

section \<open>Tx: collateral\<close>

text \<open>A warning printed with \<^verbatim>\<open>console.error\<close>; a check that passes returns the
  warnings it printed.\<close>

datatype Warning = WayTooMuchCollateral

text \<open>\<^verbatim>\<open>BigInt(Math.ceil((minCollateralPct * Number(fee)) / 100.0))\<close>, in the double
  arithmetic of the code: the percentage of the snapshot is a number, the fee is
  converted to one, the product and the quotient are rounded. \<open>None\<close> is the
  \<^verbatim>\<open>RangeError\<close> that \<^verbatim>\<open>BigInt\<close> throws on \<^verbatim>\<open>Infinity\<close> and on \<^verbatim>\<open>NaN\<close> (the
  product of \<^verbatim>\<open>Infinity\<close> and zero).\<close>

definition minCollateralOf :: "int \<Rightarrow> int \<Rightarrow> int option" where
  "minCollateralOf pct f =
     (case toDouble pct of
        None \<Rightarrow> None
      | Some c \<Rightarrow>
          (case toDouble f of
             None \<Rightarrow> None
           | Some x \<Rightarrow>
               (case toDouble (c * x) of
                  None \<Rightarrow> None
                | Some p \<Rightarrow> Some (ceilOfQuotient p 100))))"

text \<open>The formula of the spec, \<open>ceil(fee * pct / 100)\<close>, on the integers, to compare with
  what the code computes.\<close>

definition exactCeilPct :: "int \<Rightarrow> int \<Rightarrow> int" where
  "exactCeilPct pct f = - ((- (pct * f)) div 100)"

text \<open>The loop over the collateral inputs, with the running sum.\<close>

fun sumCollateral :: "Value \<Rightarrow> TxInput list \<Rightarrow> TxError + Value" where
  "sumCollateral s [] = Inr s"
| "sumCollateral s (col # cols) =
     (case origOutput col of
        None \<Rightarrow> Inl CollateralOutputNotSet
      | Some out \<Rightarrow>
          if \<not> Assets_isZero (assets (ovalue out)) then Inl CollateralNotOnlyLovelace
          else sumCollateral (Value_add s (ovalue out)) cols)"

definition validateCollateral ::
  "Collaborators \<Rightarrow> NetworkParams \<Rightarrow> Tx \<Rightarrow> TxError + Warning list" where
  "validateCollateral env params tx =
     (case maxCollateralInputs params of
        Inl e \<Rightarrow> Inl e
      | Inr maxN \<Rightarrow>
          if int (length (collateral (body tx))) > maxN then Inl TooManyCollateralInputs
          else if isSmart env (witnesses tx) then
            (case minCollateralPct params of
               Inl e \<Rightarrow> Inl e
             | Inr pct \<Rightarrow>
                 (case minCollateralOf pct (fee (body tx)) of
                    None \<Rightarrow> Inl CannotConvertToBigInt
                  | Some minCollateral \<Rightarrow>
                      (case sumCollateral (newValue 0) (collateral (body tx)) of
                         Inl e \<Rightarrow> Inl e
                       | Inr s \<Rightarrow>
                           (let s' = (case collateralReturn (body tx) of
                                        None \<Rightarrow> s
                                      | Some ret \<Rightarrow> Value_subtract s (ovalue ret))
                            in if lovelace s' < minCollateral then Inl NotEnoughCollateral
                               else Inr (if lovelace s' > minCollateral * 5
                                         then [WayTooMuchCollateral] else [])))))
          else if length (collateral (body tx)) \<noteq> 0 then Inl UnnecessaryCollateral
          else Inr [])"

text \<open>The lovelace a collateral input carries, for the statement of the check.\<close>

definition collateralLovelace :: "TxInput \<Rightarrow> int" where
  "collateralLovelace col =
     (case origOutput col of None \<Rightarrow> 0 | Some out \<Rightarrow> lovelace (ovalue out))"

definition collateralReturnLovelace :: "TxBody \<Rightarrow> int" where
  "collateralReturnLovelace b =
     (case collateralReturn b of None \<Rightarrow> 0 | Some ret \<Rightarrow> lovelace (ovalue ret))"

section \<open>Tx: attached scripts\<close>

text \<open>\<^verbatim>\<open>new Set(xs)\<close>: the distinct elements in the order of their first occurrence.
  The code compares hashes through their hexadecimal strings, which are equal exactly
  when the bytes are.\<close>

definition setOf :: "'a list \<Rightarrow> 'a list" where
  "setOf xs = rev (remdups (rev xs))"

definition validateScriptsPresent :: "Collaborators \<Rightarrow> bool \<Rightarrow> Tx \<Rightarrow> TxError + unit" where
  "validateScriptsPresent env strict tx =
     (let scripts = allScripts (witnesses tx);
          includedScriptHashes = setOf (map programHash scripts)
      in if length scripts \<noteq> length includedScriptHashes then Inl DuplicateScripts
         else
           (let requiredScriptHashes = allScriptHashes env (body tx)
            in if length requiredScriptHashes < length includedScriptHashes
               then Inl TooManyScripts
               else
                 (case find (\<lambda>h. h \<notin> set includedScriptHashes) requiredScriptHashes of
                    Some h \<Rightarrow> Inl (MissingScript h)
                  | None \<Rightarrow>
                      if strict then
                        (case find (\<lambda>k. k \<notin> set requiredScriptHashes) includedScriptHashes of
                           Some k \<Rightarrow> Inl (UnusedScript k)
                         | None \<Rightarrow> Inr ())
                      else Inr ())))"

section \<open>Tx: conservation of value\<close>

definition inputValue :: "TxInput \<Rightarrow> TxError + Value" where
  "inputValue inp =
     (case origOutput inp of None \<Rightarrow> Inl OutputNotSet | Some out \<Rightarrow> Inr (ovalue out))"

fun sumInputs :: "Value \<Rightarrow> TxInput list \<Rightarrow> TxError + Value" where
  "sumInputs v [] = Inr v"
| "sumInputs v (inp # inps) =
     (case inputValue inp of
        Inl e \<Rightarrow> Inl e
      | Inr iv \<Rightarrow> sumInputs (Value_add iv v) inps)"

definition validateConservation :: "NetworkParams \<Rightarrow> Tx \<Rightarrow> TxError + unit" where
  "validateConservation params tx =
     (case stakeAddressDeposit params of
        Inl e \<Rightarrow> Inl e
      | Inr deposit \<Rightarrow>
          (let stakeAddrDeposit = newValue deposit in
           case sumInputs (newValue 0) (inputs (body tx)) of
             Inl e \<Rightarrow> Inl e
           | Inr v1 \<Rightarrow>
               (let v2 = foldl (\<lambda>prev dcert.
                                  if isDeregister dcert then Value_add prev stakeAddrDeposit
                                  else prev)
                           v1 (dcerts (body tx));
                    v3 = Value_subtract v2 (newValue (fee (body tx)));
                    v4 = Value_add v3 \<lparr>lovelace = 0, assets = minted (body tx)\<rparr>;
                    v5 = foldl (\<lambda>prev out. Value_subtract prev (ovalue out))
                           v4 (outputs (body tx));
                    v6 = foldl (\<lambda>prev dcert.
                                  if isRegister dcert then Value_subtract prev stakeAddrDeposit
                                  else prev)
                           v5 (dcerts (body tx))
                in if lovelace v6 \<noteq> 0 then Inl (NotBalancedLovelace (lovelace v6))
                   else if \<not> Assets_isZero (assets v6) then Inl NotBalancedAssets
                   else Inr ())))"

text \<open>The net quantities the check computes, for its statement.\<close>

definition inputLovelace :: "TxInput \<Rightarrow> int" where
  "inputLovelace inp =
     (case origOutput inp of None \<Rightarrow> 0 | Some out \<Rightarrow> lovelace (ovalue out))"

definition inputQty :: "AssetClass \<Rightarrow> TxInput \<Rightarrow> int" where
  "inputQty k inp =
     (case origOutput inp of None \<Rightarrow> 0 | Some out \<Rightarrow> assetQty (assets (ovalue out)) k)"

definition netLovelace :: "int \<Rightarrow> TxBody \<Rightarrow> int" where
  "netLovelace deposit b =
     sum_list (map inputLovelace (inputs b))
     + deposit * int (length (filter isDeregister (dcerts b)))
     - fee b
     - sum_list (map (\<lambda>out. lovelace (ovalue out)) (outputs b))
     - deposit * int (length (filter isRegister (dcerts b)))"

definition netQty :: "TxBody \<Rightarrow> AssetClass \<Rightarrow> int" where
  "netQty b k =
     sum_list (map (inputQty k) (inputs b))
     + assetQty (minted b) k
     - sum_list (map (\<lambda>out. assetQty (assets (ovalue out)) k) (outputs b))"

text \<open>An output's lovelace changed by \<open>d\<close>, for the statement of the check.\<close>

definition bumpOutput :: "nat \<Rightarrow> int \<Rightarrow> Tx \<Rightarrow> Tx" where
  "bumpOutput i d tx =
     tx\<lparr>body := (body tx)\<lparr>outputs :=
        (outputs (body tx))[i := setLovelace (lovelace (ovalue (outputs (body tx) ! i)) + d)
                                   (outputs (body tx) ! i)]\<rparr>\<rparr>"

text \<open>A value whose ledger has no entry exactly when all its quantities are zero: what
  pruning leaves.\<close>

definition pruned :: "Value \<Rightarrow> bool" where
  "pruned v = ((assets v = []) = (\<forall>k. assetQty (assets v) k = 0))"

section \<open>Tx: execution budget of the redeemers\<close>

text \<open>Reading a JavaScript array at an index: \<^verbatim>\<open>undefined\<close> out of range.\<close>

definition nth_opt :: "'a list \<Rightarrow> nat \<Rightarrow> 'a option" where
  "nth_opt xs i = (if i < length xs then Some (xs ! i) else None)"

text \<open>Modelled from the spec: \<^verbatim>\<open>Assets.getPolicies\<close> (the money module is not among the
  sources): the policy ids of the ledger, each once, in the order of the ledger.\<close>

definition getPolicies :: "Assets \<Rightarrow> bytes list" where
  "getPolicies a = setOf (map (\<lambda>(k, q). fst k) a)"

text \<open>The two branches of the loop body of \<^verbatim>\<open>validateRedeemersExBudget\<close>; every
  \<^verbatim>\<open>expectSome\<close> that meets nothing throws.\<close>

definition checkSpending ::
  "Collaborators \<Rightarrow> Tx \<Rightarrow> UplcData \<Rightarrow> TxRedeemer \<Rightarrow> TxError + unit" where
  "checkSpending env tx txData redeemer =
     (case nth_opt (inputs (body tx)) (index redeemer) of
        None \<Rightarrow> Inl ExpectedSome
      | Some utxo \<Rightarrow>
     (case origOutput utxo of
        None \<Rightarrow> Inl OutputNotSet
      | Some out \<Rightarrow>
     (case validatorHash (address out) of
        None \<Rightarrow> Inl ExpectedSome
      | Some vh \<Rightarrow>
     (case findUplcProgram env (witnesses tx) vh of
        None \<Rightarrow> Inl ExpectedSome
      | Some script \<Rightarrow>
     (case (case datum out of None \<Rightarrow> None | Some d \<Rightarrow> dataOfDatum d) of
        None \<Rightarrow> Inl ExpectedSome
      | Some datumData \<Rightarrow>
          (let scriptContextData = spendingContext env redeemer (utxoId utxo) txData;
               args = [datumData, rdata redeemer, scriptContextData];
               c = evalProgram env script args
           in if mem c > mem (cost redeemer)
              then Inl (SpendingMemTooHigh (utxoId utxo) (mem (cost redeemer)) (mem c))
              else if cpu c > cpu (cost redeemer)
              then Inl (SpendingCpuTooHigh (utxoId utxo) (cpu (cost redeemer)) (cpu c))
              else Inr ()))))))"

definition checkMinting ::
  "Collaborators \<Rightarrow> Tx \<Rightarrow> UplcData \<Rightarrow> TxRedeemer \<Rightarrow> TxError + unit" where
  "checkMinting env tx txData redeemer =
     (case nth_opt (getPolicies (minted (body tx))) (index redeemer) of
        None \<Rightarrow> Inl ExpectedSome
      | Some mph \<Rightarrow>
     (case findUplcProgram env (witnesses tx) mph of
        None \<Rightarrow> Inl ExpectedSome
      | Some script \<Rightarrow>
          (let scriptContextData = mintingContext env redeemer mph txData;
               args = [rdata redeemer, scriptContextData];
               c = evalProgram env script args
           in if mem c > mem (cost redeemer)
              then Inl (MintingMemTooHigh mph (mem (cost redeemer)) (mem c))
              else if cpu c > cpu (cost redeemer)
              then Inl (MintingCpuTooHigh mph (cpu (cost redeemer)) (cpu c))
              else Inr ())))"

definition checkRedeemer ::
  "Collaborators \<Rightarrow> Tx \<Rightarrow> UplcData \<Rightarrow> TxRedeemer \<Rightarrow> TxError + unit" where
  "checkRedeemer env tx txData redeemer =
     (if isSpending redeemer then checkSpending env tx txData redeemer
      else if isMinting redeemer then checkMinting env tx txData redeemer
      else Inl UnhandledRedeemerKind)"

text \<open>\<^verbatim>\<open>forEach\<close> with a body that may throw: the first error ends the loop.\<close>

fun forEach :: "('a \<Rightarrow> TxError + unit) \<Rightarrow> 'a list \<Rightarrow> TxError + unit" where
  "forEach f [] = Inr ()"
| "forEach f (x # xs) = (case f x of Inl e \<Rightarrow> Inl e | Inr u \<Rightarrow> forEach f xs)"

definition validateRedeemersExBudget ::
  "Collaborators \<Rightarrow> NetworkParams \<Rightarrow> Tx \<Rightarrow> TxError + unit" where
  "validateRedeemersExBudget env params tx =
     (let txData = toTxUplcData env params (body tx) (redeemers (witnesses tx))
                     (datums (witnesses tx))
      in forEach (checkRedeemer env tx txData) (redeemers (witnesses tx)))"

section \<open>Tx: script data hash\<close>

text \<open>\<^verbatim>\<open>sortedV2CostParams\<close>: the names of the cost model, sorted as JavaScript sorts
  strings (by code unit, which for the ASCII names of a cost model is the order of the
  characters), each replaced by its value. \<^verbatim>\<open>Object.keys\<close> of an undefined model
  throws.\<close>

definition lookupParam :: "(string \<times> int) list \<Rightarrow> string \<Rightarrow> int" where
  "lookupParam baseObj key = (case map_of baseObj key of None \<Rightarrow> 0 | Some v \<Rightarrow> v)"

definition sortedV2CostParams :: "NetworkParams \<Rightarrow> TxError + int list" where
  "sortedV2CostParams p =
     (case costModelPlutusScriptV2 p of
        None \<Rightarrow> Inl (MissingParam ''costModels.PlutusScriptV2'')
      | Some baseObj \<Rightarrow>
          (let keys = sort (map fst baseObj) in Inr (map (lookupParam baseObj) keys)))"

definition calcScriptDataHash ::
  "Collaborators \<Rightarrow> NetworkParams \<Rightarrow> UplcData list \<Rightarrow> TxRedeemer list \<Rightarrow> TxError + bytes"
  where
  "calcScriptDataHash env params ds rs =
     (if length rs = 0 then Inl NoRedeemers
      else
        (let bytes0 = encodeDefList (map (redeemerToCbor env) rs);
             bytes1 = (if length ds > 0 then bytes0 @ listDataToCbor env ds else bytes0)
         in case sortedV2CostParams params of
              Inl e \<Rightarrow> Inl e
            | Inr sortedCostParams \<Rightarrow>
                Inr (blake2b env
                       (bytes1 @
                        encodeMap
                          [(encodeInt 1, encodeDefList (map encodeInt sortedCostParams))]))))"

text \<open>\<^verbatim>\<open>compareBytes\<close> of the codec utilities: the first differing byte decides,
  then the lengths.\<close>

fun compareBytes :: "bytes \<Rightarrow> bytes \<Rightarrow> int" where
  "compareBytes [] [] = 0"
| "compareBytes [] (y # ys) = - 1"
| "compareBytes (x # xs) [] = 1"
| "compareBytes (x # xs) (y # ys) =
     (if x < y then - 1 else if x > y then 1 else compareBytes xs ys)"

definition validateScriptDataHash ::
  "Collaborators \<Rightarrow> NetworkParams \<Rightarrow> Tx \<Rightarrow> TxError + unit" where
  "validateScriptDataHash env params tx =
     (if length (redeemers (witnesses tx)) > 0 then
        (case scriptDataHash (body tx) of
           Some h \<Rightarrow>
             (case calcScriptDataHash env params (datums (witnesses tx))
                     (redeemers (witnesses tx)) of
                Inl e \<Rightarrow> Inl e
              | Inr h' \<Rightarrow> if compareBytes h' h \<noteq> 0 then Inl WrongScriptDataHash else Inr ())
         | None \<Rightarrow> Inl NoScriptDataHash)
      else
        (case scriptDataHash (body tx) of
           Some h \<Rightarrow> Inl UnexpectedScriptDataHash
         | None \<Rightarrow> Inr ()))"

section \<open>Sample instances\<close>


definition demoParams :: NetworkParams where
  "demoParams =
     \<lparr>txFeeFixed = Some 155381, txFeePerByte = Some 44, utxoCostPerByte = Some 4310,
      collateralPercentage = Some 150, maxCollateralInputsParam = Some 3,
      maxTxExecutionUnitsMemory = Some 14000000,
      maxTxExecutionUnitsSteps = Some 10000000000,
      maxTxSizeParam = Some 16384, stakeAddressDepositParam = Some 2000000,
      costModelPlutusScriptV2 = Some [(''b'', 2), (''a'', 1)]\<rparr>"

definition demoAddress :: Address where
  "demoAddress =
     \<lparr>addressBytes = replicate 29 0,
      spendingCredential = PubKeyCredential (replicate 28 0)\<rparr>"

definition demoOutput :: TxOutput where
  "demoOutput =
     \<lparr>address = demoAddress, ovalue = \<lparr>lovelace = 0, assets = []\<rparr>,
      datum = None, refScript = None\<rparr>"

text \<open>Sample collaborators. The body is encoded by its fee alone and the witnesses by
  their signatures; the sample decoders read the sample entities only. The unique
  signers counted are the required signers, each once; the signatures counted are those
  that are not the placeholder.\<close>

definition emptyBody :: TxBody where
  "emptyBody =
     \<lparr>inputs = [], refInputs = [], outputs = [], fee = 0, minted = [], dcerts = [],
      withdrawals = [], signers = [], collateral = [], collateralReturn = None,
      scriptDataHash = None, metadataHash = None\<rparr>"

definition emptyWitnesses :: TxWitnesses where
  "emptyWitnesses = \<lparr>signatures = [], allScripts = [], datums = [], redeemers = []\<rparr>"

definition demoBodyFromCbor :: "bytes \<Rightarrow> (TxBody \<times> bytes) option" where
  "demoBodyFromCbor bs =
     (case bs of
        a # b # rest \<Rightarrow>
          if a = 161 \<and> b = 2 then
            (case decodeDefHead rest of
               None \<Rightarrow> None
             | Some (m, n, r) \<Rightarrow> if m = 0 then Some (emptyBody\<lparr>fee := int n\<rparr>, r) else None)
          else None
      | _ \<Rightarrow> None)"

definition demoWitnessesFromCbor :: "bytes \<Rightarrow> (TxWitnesses \<times> bytes) option" where
  "demoWitnessesFromCbor bs =
     (case bs of
        a # b # c # rest \<Rightarrow>
          if a = 161 \<and> b = 0 \<and> c = 128 then Some (emptyWitnesses, rest) else None
      | _ \<Rightarrow> None)"

definition demoMetadataFromCbor :: "bytes \<Rightarrow> (TxMetadata \<times> bytes) option" where
  "demoMetadataFromCbor bs =
     (case bs of
        a # rest \<Rightarrow> if a = 160 then Some (TxMetadata [], rest) else None
      | _ \<Rightarrow> None)"

definition demoSignatureToCbor :: "Signature \<Rightarrow> bytes" where
  "demoSignatureToCbor s = encodeTuple [encodeBytes (sigPubKey s), encodeBytes (sigBytes s)]"

definition demoEnv :: Collaborators where
  "demoEnv =
     \<lparr>bodyToCbor = (\<lambda>b. encodeMap [(encodeInt 2, encodeInt (fee b))]),
      witnessesToCbor =
        (\<lambda>w. encodeMap
                [(encodeInt 0, encodeDefList (map demoSignatureToCbor (signatures w)))]),
      metadataToCbor =
        (\<lambda>m. case m of
                TxMetadata es \<Rightarrow> encodeMap (map (\<lambda>(k, v). (encodeInt k, encodeBytes v)) es)),
      bodyFromCbor = demoBodyFromCbor,
      witnessesFromCbor = demoWitnessesFromCbor,
      metadataFromCbor = demoMetadataFromCbor,
      countUniqueSigners = (\<lambda>b. length (remdups (requiredSigners b))),
      countNonDummySignatures =
        (\<lambda>w. length (filter (\<lambda>s. s \<noteq> dummySignature) (signatures w))),
      calcExFee = (\<lambda>p w. Inr (sum_list (map (\<lambda>r. mem (cost r)) (redeemers w)))),
      isSmart = (\<lambda>w. allScripts w \<noteq> []),
      allScriptHashes =
        (\<lambda>b. List.map_filter
                (\<lambda>i. case origOutput i of
                        None \<Rightarrow> None
                      | Some out \<Rightarrow> validatorHash (address out))
                (inputs b)),
      findUplcProgram = (\<lambda>w h. find (\<lambda>s. programHash s = h) (allScripts w)),
      toTxUplcData = (\<lambda>p b rs ds. ListData ds),
      spendingContext = (\<lambda>r i txData. ConstrData 0 [txData, IntData (int (snd i))]),
      mintingContext = (\<lambda>r mph txData. ConstrData 0 [txData, ByteArrayData mph]),
      evalProgram =
        (\<lambda>s args. \<lparr>mem = 100 * int (length (programCbor s)),
                    cpu = 1000 * int (length args)\<rparr>),
      redeemerToCbor = (\<lambda>r. encodeTuple [encodeInt (int (index r))]),
      listDataToCbor = (\<lambda>ds. encodeDefList (map (\<lambda>d. [0]) ds)),
      blake2b = (\<lambda>bs. [sum_list bs mod 256])\<rparr>"

definition demoTx :: Tx where
  "demoTx =
     \<lparr>body = emptyBody\<lparr>fee := 200000\<rparr>, witnesses = emptyWitnesses, valid = False,
      metadata = None\<rparr>"

text \<open>Two required signers, of whom the first has signed; the declared fee is the
  minimum, and one lovelace less.\<close>

definition demoSignature :: Signature where
  "demoSignature =
     \<lparr>sigPubKey = replicate 32 1, sigPubKeyHash = replicate 28 1, sigBytes = replicate 64 1\<rparr>"

definition demoTxPartlySigned :: Tx where
  "demoTxPartlySigned =
     \<lparr>body = emptyBody\<lparr>fee := 164797, signers := [replicate 28 1, replicate 28 2]\<rparr>,
      witnesses = emptyWitnesses\<lparr>signatures := [demoSignature]\<rparr>,
      valid = False, metadata = None\<rparr>"

definition demoTxUnderpaid :: Tx where
  "demoTxUnderpaid =
     \<lparr>body = emptyBody\<lparr>fee := 164796, signers := [replicate 28 1, replicate 28 2]\<rparr>,
      witnesses = emptyWitnesses\<lparr>signatures := [demoSignature]\<rparr>,
      valid = False, metadata = None\<rparr>"

text \<open>One required signer, who has not signed, and the signature of another key.\<close>

definition foreignSignature :: Signature where
  "foreignSignature =
     \<lparr>sigPubKey = replicate 32 3, sigPubKeyHash = replicate 28 3, sigBytes = replicate 64 3\<rparr>"

definition demoTxForeignSignature :: Tx where
  "demoTxForeignSignature =
     \<lparr>body = emptyBody\<lparr>fee := 160353, signers := [replicate 28 1]\<rparr>,
      witnesses = emptyWitnesses\<lparr>signatures := [foreignSignature]\<rparr>,
      valid = False, metadata = None\<rparr>"

definition demoScript :: UplcProgram where
  "demoScript =
     \<lparr>plutusVersionTag = 2, programCbor = [70, 1, 0, 0, 34, 33, 1],
      programHash = replicate 28 7\<rparr>"

definition demoCollateral :: TxInput where
  "demoCollateral =
     \<lparr>utxoId = (replicate 32 9, 0), origOutput = Some (setLovelace 8000000 demoOutput)\<rparr>"

definition demoTxSmart :: Tx where
  "demoTxSmart =
     \<lparr>body = emptyBody\<lparr>fee := 1000000, collateral := [demoCollateral]\<rparr>,
      witnesses = emptyWitnesses\<lparr>allScripts := [demoScript]\<rparr>,
      valid = False, metadata = None\<rparr>"

text \<open>A fee of \<open>2^53 + 1\<close> lovelace, which is not a double, with a collateral of
  \<open>2^53\<close> lovelace, on a snapshot whose collateral percentage is 100.\<close>

definition demoParamsPct100 :: NetworkParams where
  "demoParamsPct100 = demoParams\<lparr>collateralPercentage := Some 100\<rparr>"

definition demoTxHugeFee :: Tx where
  "demoTxHugeFee =
     \<lparr>body = emptyBody
        \<lparr>fee := 9007199254740993,
         collateral :=
           [\<lparr>utxoId = (replicate 32 9, 0),
             origOutput = Some (setLovelace 9007199254740992 demoOutput)\<rparr>]\<rparr>,
      witnesses = emptyWitnesses\<lparr>allScripts := [demoScript]\<rparr>,
      valid = False, metadata = None\<rparr>"

definition demoAsset :: AssetClass where
  "demoAsset = (replicate 28 5, [116, 111, 107])"

definition demoTxBalanced :: Tx where
  "demoTxBalanced =
     \<lparr>body = emptyBody
        \<lparr>inputs :=
           [\<lparr>utxoId = (replicate 32 9, 1),
             origOutput = Some (demoOutput\<lparr>ovalue :=
               \<lparr>lovelace = 5000000, assets = [(demoAsset, 3)]\<rparr>\<rparr>)\<rparr>],
         outputs :=
           [demoOutput\<lparr>ovalue := \<lparr>lovelace = 4800000, assets = [(demoAsset, 5)]\<rparr>\<rparr>],
         fee := 200000,
         minted := [(demoAsset, 2)],
         dcerts := [Register, Deregister]\<rparr>,
      witnesses = emptyWitnesses, valid = False, metadata = None\<rparr>"

definition demoRedeemer :: TxRedeemer where
  "demoRedeemer = \<lparr>kind = Spending, index = 0, rdata = IntData 42, cost = \<lparr>mem = 700, cpu = 3000\<rparr>\<rparr>"

definition demoScriptInput :: TxInput where
  "demoScriptInput =
     \<lparr>utxoId = (replicate 32 9, 2),
      origOutput = Some
        \<lparr>address = \<lparr>addressBytes = replicate 29 1,
                     spendingCredential = ValidatorCredential (replicate 28 7)\<rparr>,
         ovalue = \<lparr>lovelace = 3000000, assets = []\<rparr>,
         datum = Some (InlineDatum (IntData 7)), refScript = None\<rparr>\<rparr>"

definition demoTxScript :: Tx where
  "demoTxScript =
     \<lparr>body = emptyBody\<lparr>inputs := [demoScriptInput], scriptDataHash := Some [170]\<rparr>,
      witnesses = emptyWitnesses
        \<lparr>allScripts := [demoScript], datums := [IntData 7], redeemers := [demoRedeemer]\<rparr>,
      valid = False, metadata = None\<rparr>"

definition demoTxCertifying :: Tx where
  "demoTxCertifying =
     demoTxScript\<lparr>witnesses := (witnesses demoTxScript)
       \<lparr>redeemers := [\<lparr>kind = Certifying, index = 0, rdata = IntData 42,
                        cost = \<lparr>mem = 14000000, cpu = 10000000000\<rparr>\<rparr>]\<rparr>\<rparr>"

definition demoTxOverBudget :: Tx where
  "demoTxOverBudget =
     demoTxScript\<lparr>witnesses := (witnesses demoTxScript)
       \<lparr>redeemers := [demoRedeemer\<lparr>cost := \<lparr>mem = 699, cpu = 3000\<rparr>\<rparr>]\<rparr>\<rparr>"

section \<open>Verification\<close>

subsection \<open>TxOutput.toCbor\<close>

lemma majorType_encodeDefHead: "majorType (encodeDefHead m n @ rest) = Some m"
  by (simp add: majorType_def encodeDefHead_def)

lemma encodeTag_24: "encodeTag 24 = [216, 24]"
  by (simp add: encodeTag_def encodeDefHead_def)

lemma TxOutput_toCbor_majorType:
  "majorType (TxOutput_toCbor c strict out) = Some (if compactForm strict out then 4 else 5)"
  by (simp add: TxOutput_toCbor_def encodeTuple_def encodeDefList_def encodeObjectIKey_def
      encodeMap_def majorType_encodeDefHead)

text \<open>
  Claim C6. \<^verbatim>\<open>TxOutput.toCbor\<close> produces the compact tuple (address, value and, for a
  hash datum, the datum hash) exactly when the datum is absent or a hash reference, no
  reference script is present and strict mode is off; in every other case it produces
  the map keyed by the integers 0 to 3, whose entry 3 is the tag 24 (bytes 216, 24)
  around the byte string of the tuple (script version, script bytes). The two forms are
  told apart on the wire by the major type of the first byte.
\<close>

theorem TxOutput_toCbor_shape:
  "isTuple (TxOutput_toCbor c strict out) =
     ((datum out = None \<or> (\<exists>h d. datum out = Some (HashedDatum h d)))
      \<and> refScript out = None \<and> \<not> strict)
   \<and> isObject (TxOutput_toCbor c strict out) = (\<not> isTuple (TxOutput_toCbor c strict out))
   \<and> TxOutput_toCbor c strict out =
       (if isTuple (TxOutput_toCbor c strict out) then
          encodeTuple
            ([addressToCbor c (address out), valueToCbor c (ovalue out)] @
             (case datum out of Some (HashedDatum h d) \<Rightarrow> [datumHashToCbor c h] | _ \<Rightarrow> []))
        else
          encodeObjectIKey
            ([(0, addressToCbor c (address out)), (1, valueToCbor c (ovalue out))] @
             (case datum out of None \<Rightarrow> [] | Some d \<Rightarrow> [(2, datumToCbor c d)]) @
             (case refScript out of None \<Rightarrow> []
              | Some s \<Rightarrow>
                  [(3, [216, 24] @
                       encodeBytes
                         (encodeTuple
                            [encodeInt (int (plutusVersionTag s)), programCbor s]))])))"
proof -
  have c: "compactForm strict out =
     ((datum out = None \<or> (\<exists>h d. datum out = Some (HashedDatum h d)))
      \<and> refScript out = None \<and> \<not> strict)"
  proof (cases "datum out")
    case None
    then show ?thesis by (simp add: compactForm_def)
  next
    case (Some d)
    then show ?thesis by (cases d) (simp_all add: compactForm_def)
  qed
  have t: "isTuple (TxOutput_toCbor c strict out) = compactForm strict out"
    by (simp add: isTuple_def TxOutput_toCbor_majorType)
  have o: "isObject (TxOutput_toCbor c strict out) = (\<not> compactForm strict out)"
    by (simp add: isObject_def TxOutput_toCbor_majorType)
  show ?thesis
    unfolding t o c [symmetric]
    by (cases "refScript out") (simp_all add: TxOutput_toCbor_def refScriptEntry_def encodeTag_24)
qed

subsection \<open>TxOutput.correctLovelace\<close>


























subsection \<open>Tx.fromCbor and Tx.toCbor\<close>

lemma decodeListStart_tuple4: "decodeListStart (encodeTuple [a, b, c, d] @ r) = Some (Some 4, a @ b @ c @ d @ r)"
  by (simp add: decodeListStart_def encodeTuple_def encodeDefList_def encodeDefHead_def decodeDefHead_def)

lemma decodeListStart_tuple3: "decodeListStart (encodeTuple [a, b, c] @ r) = Some (Some 3, a @ b @ c @ r)"
  by (simp add: decodeListStart_def encodeTuple_def encodeDefList_def encodeDefHead_def decodeDefHead_def)

lemma decodeBool_encodeBool: "decodeBool (encodeBool v @ r) = Some (v, r)"
  by (simp add: decodeBool_def encodeBool_def)

lemma decodeNullOption_encodeNullOption:
  assumes "\<And>x. m = Some x \<Longrightarrow> dec (enc x @ r) = Some (x, r) \<and> enc x \<noteq> [] \<and> hd (enc x) \<noteq> 246"
  shows "decodeNullOption dec (encodeNullOption enc m @ r) = Some (m, r)"
proof (cases m)
  case None
  then show ?thesis by (simp add: decodeNullOption_def encodeNullOption_def encodeNull_def)
next
  case (Some x)
  with assms have d: "dec (enc x @ r) = Some (x, r)" and ne: "enc x \<noteq> []" and h: "hd (enc x) \<noteq> 246"
    by simp_all
  from ne obtain b bs where e: "enc x = b # bs" by (cases "enc x") simp_all
  with h have "b \<noteq> 246" by simp
  with d e Some show ?thesis by (simp add: decodeNullOption_def encodeNullOption_def)
qed

text \<open>
  Claim C1, as the code has it. Take a body, witnesses and metadata that their own
  decoders read back from their encodings. The 4-tuple (body, witnesses, valid flag,
  optional metadata) decodes to the transaction with that flag, for either value of the
  flag; re-encoding it gives the same bytes exactly when the flag is true, because
  \<^verbatim>\<open>toCbor\<close> always writes the flag as true. So the encoding \<^verbatim>\<open>toCbor(false)\<close> of
  any transaction decodes to that transaction with the flag true, and re-encodes to
  byte-identical output. The 3-tuple written for the fee calculation is refused by
  \<^verbatim>\<open>fromCbor\<close>.
\<close>

theorem Tx_roundtrip:
  assumes b: "\<And>r. bodyFromCbor env (bodyToCbor env b @ r) = Some (b, r)"
    and w: "\<And>r. witnessesFromCbor env (witnessesToCbor env w @ r) = Some (w, r)"
    and m: "\<And>x r. m = Some x \<Longrightarrow>
              metadataFromCbor env (metadataToCbor env x @ r) = Some (x, r)
            \<and> metadataToCbor env x \<noteq> [] \<and> hd (metadataToCbor env x) \<noteq> 246"
  shows "Tx_fromCbor env
           (encodeTuple [bodyToCbor env b, witnessesToCbor env w, encodeBool v,
                         encodeNullOption (metadataToCbor env) m])
           = Inr \<lparr>body = b, witnesses = w, valid = v, metadata = m\<rparr>
       \<and> (Tx_toCbor env False \<lparr>body = b, witnesses = w, valid = v, metadata = m\<rparr>
            = encodeTuple [bodyToCbor env b, witnessesToCbor env w, encodeBool v,
                           encodeNullOption (metadataToCbor env) m]) = v
       \<and> Tx_fromCbor env (Tx_toCbor env False \<lparr>body = b, witnesses = w, valid = v, metadata = m\<rparr>)
           = Inr \<lparr>body = b, witnesses = w, valid = True, metadata = m\<rparr>
       \<and> Tx_toCbor env False \<lparr>body = b, witnesses = w, valid = True, metadata = m\<rparr>
           = Tx_toCbor env False \<lparr>body = b, witnesses = w, valid = v, metadata = m\<rparr>
       \<and> Tx_fromCbor env (Tx_toCbor env True \<lparr>body = b, witnesses = w, valid = v, metadata = m\<rparr>)
           = Inl UnexpectedEncoding"
proof -
  have dec: "Tx_fromCbor env
           (encodeTuple [bodyToCbor env b, witnessesToCbor env w, encodeBool u,
                         encodeNullOption (metadataToCbor env) m])
           = Inr \<lparr>body = b, witnesses = w, valid = u, metadata = m\<rparr>" for u
  proof -
    have meta: "decodeNullOption (metadataFromCbor env)
                  (encodeNullOption (metadataToCbor env) m @ []) = Some (m, [])"
      by (rule decodeNullOption_encodeNullOption) (rule m)
    show ?thesis
      using decodeListStart_tuple4 [of "bodyToCbor env b" "witnessesToCbor env w"
          "encodeBool u" "encodeNullOption (metadataToCbor env) m" "[]"] meta
      by (simp add: Tx_fromCbor_def itemOf_def b w decodeBool_encodeBool)
  qed
  have flag: "(encodeTuple [x, y, encodeBool True, z] = encodeTuple [x, y, encodeBool v, z]) = v" for x y z
    by (simp add: encodeTuple_def encodeDefList_def encodeBool_def)
  have three: "Tx_fromCbor env (Tx_toCbor env True \<lparr>body = b, witnesses = w, valid = v, metadata = m\<rparr>)
           = Inl UnexpectedEncoding"
    using decodeListStart_tuple3 [of "bodyToCbor env b" "witnessesToCbor env w"
        "encodeNullOption (metadataToCbor env) m" "[]"]
    by (simp add: Tx_fromCbor_def Tx_toCbor_def)
  show ?thesis
    using dec [of v] dec [of True] flag three by (simp add: Tx_toCbor_def)
qed

lemma demo_body_roundtrip:
  "bodyFromCbor demoEnv (bodyToCbor demoEnv (emptyBody\<lparr>fee := 200000\<rparr>) @ r)
     = Some (emptyBody\<lparr>fee := 200000\<rparr>, r)"
  by (simp add: demoEnv_def demoBodyFromCbor_def encodeMap_def encodeInt_def encodeDefHead_def
      padLeft_def encodeIntBE_def digits256.simps decodeDefHead_def readArg_def decodeIntBE_def
      emptyBody_def)

lemma demo_witnesses_roundtrip:
  "witnessesFromCbor demoEnv (witnessesToCbor demoEnv emptyWitnesses @ r) = Some (emptyWitnesses, r)"
  by (simp add: demoEnv_def demoWitnessesFromCbor_def encodeMap_def encodeInt_def
      encodeDefHead_def encodeDefList_def emptyWitnesses_def)

lemma demo_metadata_roundtrip:
  "Some (TxMetadata []) = Some x \<Longrightarrow>
     metadataFromCbor demoEnv (metadataToCbor demoEnv x @ r) = Some (x, r)
   \<and> metadataToCbor demoEnv x \<noteq> [] \<and> hd (metadataToCbor demoEnv x) \<noteq> 246"
  by (auto simp: demoEnv_def demoMetadataFromCbor_def encodeMap_def encodeDefHead_def)

theorem Tx_roundtrip_witness:
  "Tx_fromCbor demoEnv [132, 161, 2, 26, 0, 3, 13, 64, 161, 0, 128, 245, 160]
     = Inr \<lparr>body = emptyBody\<lparr>fee := 200000\<rparr>, witnesses = emptyWitnesses, valid = True,
            metadata = Some (TxMetadata [])\<rparr>
   \<and> Tx_toCbor demoEnv False
       \<lparr>body = emptyBody\<lparr>fee := 200000\<rparr>, witnesses = emptyWitnesses, valid = True,
        metadata = Some (TxMetadata [])\<rparr>
     = [132, 161, 2, 26, 0, 3, 13, 64, 161, 0, 128, 245, 160]"
proof -
  have enc: "encodeTuple [bodyToCbor demoEnv (emptyBody\<lparr>fee := 200000\<rparr>),
               witnessesToCbor demoEnv emptyWitnesses, encodeBool True,
               encodeNullOption (metadataToCbor demoEnv) (Some (TxMetadata []))]
             = [132, 161, 2, 26, 0, 3, 13, 64, 161, 0, 128, 245, 160]"
    by (simp add: demoEnv_def encodeTuple_def encodeDefList_def encodeMap_def encodeInt_def
        encodeDefHead_def padLeft_def encodeIntBE_def digits256.simps encodeBool_def
        encodeNullOption_def emptyBody_def emptyWitnesses_def)
  show ?thesis
    using Tx_roundtrip [of demoEnv "emptyBody\<lparr>fee := 200000\<rparr>" emptyWitnesses
        "Some (TxMetadata [])" True, OF demo_body_roundtrip demo_witnesses_roundtrip
        demo_metadata_roundtrip]
    unfolding enc by simp
qed

text \<open>The 4-tuple whose valid flag is false (byte 244) decodes, and is re-encoded with
  the flag true (byte 245): the bytes are not reproduced.\<close>

theorem Tx_roundtrip_invalid_flag:
  "Tx_fromCbor demoEnv [132, 161, 2, 26, 0, 3, 13, 64, 161, 0, 128, 244, 246] = Inr demoTx
   \<and> Tx_toCbor demoEnv False demoTx = [132, 161, 2, 26, 0, 3, 13, 64, 161, 0, 128, 245, 246]
   \<and> Tx_toCbor demoEnv False demoTx \<noteq> [132, 161, 2, 26, 0, 3, 13, 64, 161, 0, 128, 244, 246]"
  by (simp add: Tx_fromCbor_def Tx_toCbor_def demoTx_def demoEnv_def decodeListStart_def
      decodeDefHead_def readArg_def decodeIntBE_def itemOf_def demoBodyFromCbor_def
      demoWitnessesFromCbor_def decodeBool_def decodeNullOption_def
      encodeTuple_def encodeDefList_def encodeMap_def encodeInt_def
      encodeDefHead_def padLeft_def encodeIntBE_def digits256.simps encodeBool_def
      encodeNullOption_def encodeNull_def emptyBody_def emptyWitnesses_def)

subsection \<open>Tx.calcSize and Tx.validateFee\<close>

lemma calcSize_False: "calcSize env False tx = (length (Tx_toCbor env False tx), tx)"
  by (simp add: calcSize_def)

lemma dropDummies_replicate:
  "dropDummies n (replicate n dummySignature @ xs) = xs"
proof (induction n)
  case 0
  then show ?case by (cases xs) simp_all
next
  case (Suc n)
  then show ?case by simp
qed

lemma removeDummySignatures_addDummySignatures:
  "removeDummySignatures n (addDummySignatures n w) = w"
  by (simp add: removeDummySignatures_def addDummySignatures_def dropDummies_replicate)

lemma calcSize_True:
  "calcSize env True tx =
     (length (Tx_toCbor env True
        (tx\<lparr>witnesses := addDummySignatures (countMissingSignatures env tx) (witnesses tx)\<rparr>)),
      tx)"
  by (simp add: calcSize_def Let_def removeDummySignatures_addDummySignatures)

text \<open>
  Claim C10. \<^verbatim>\<open>calcSize(true)\<close> inserts the placeholder signatures, measures the
  encoding and removes as many placeholders as it inserted. For every transaction,
  whatever signatures and placeholders it already carries, removing undoes inserting:
  the transaction after the call is the transaction before it, with the same signature
  list and the same bytes from a later \<^verbatim>\<open>toCbor\<close>, and the size returned is the size
  of the encoding with the placeholders in.
\<close>

theorem calcSize_restores:
  "snd (calcSize env True tx) = tx
   \<and> removeDummySignatures (countMissingSignatures env tx)
       (addDummySignatures (countMissingSignatures env tx) (witnesses tx)) = witnesses tx
   \<and> signatures (witnesses (snd (calcSize env True tx))) = signatures (witnesses tx)
   \<and> Tx_toCbor env forFee (snd (calcSize env True tx)) = Tx_toCbor env forFee tx
   \<and> fst (calcSize env True tx)
       = length (Tx_toCbor env True
           (tx\<lparr>witnesses := (witnesses tx)
                \<lparr>signatures := signatures (witnesses tx)
                    @ replicate (nat (countMissingSignatures env tx)) dummySignature\<rparr>\<rparr>))"
proof -
  have after: "snd (calcSize env True tx) = tx"
    by (simp add: calcSize_True)
  have size: "fst (calcSize env True tx)
       = length (Tx_toCbor env True
           (tx\<lparr>witnesses := (witnesses tx)
                \<lparr>signatures := signatures (witnesses tx)
                    @ replicate (nat (countMissingSignatures env tx)) dummySignature\<rparr>\<rparr>))"
    by (simp add: calcSize_True addDummySignatures_def)
  show ?thesis
    using size by (simp add: after removeDummySignatures_addDummySignatures)
qed

lemma demo_counts:
  "countUniqueSigners demoEnv (body demoTxPartlySigned) = 2"
  "countNonDummySignatures demoEnv (witnesses demoTxPartlySigned) = 1"
  "countUniqueSigners demoEnv (body demoTxUnderpaid) = 2"
  "countNonDummySignatures demoEnv (witnesses demoTxUnderpaid) = 1"
  "countUniqueSigners demoEnv (body demoTxForeignSignature) = 1"
  "countNonDummySignatures demoEnv (witnesses demoTxForeignSignature) = 1"
  by (simp_all add: demoEnv_def requiredSigners_def demoTxPartlySigned_def demoTxUnderpaid_def
      demoTxForeignSignature_def emptyBody_def emptyWitnesses_def demoSignature_def
      foreignSignature_def dummySignature_def List.map_filter_simps)

lemma demo_size_for_fee:
  "length (Tx_toCbor demoEnv True
     (demoTxPartlySigned\<lparr>witnesses := addDummySignatures 1 (witnesses demoTxPartlySigned)\<rparr>))
   = 214"
  "length (Tx_toCbor demoEnv True
     (demoTxUnderpaid\<lparr>witnesses := addDummySignatures 1 (witnesses demoTxUnderpaid)\<rparr>))
   = 214"
  "length (Tx_toCbor demoEnv True
     (demoTxForeignSignature\<lparr>witnesses :=
        addDummySignatures 1 (witnesses demoTxForeignSignature)\<rparr>))
   = 214"
  "length (Tx_toCbor demoEnv True
     (demoTxForeignSignature\<lparr>witnesses :=
        addDummySignatures 0 (witnesses demoTxForeignSignature)\<rparr>))
   = 113"
  by (simp_all add: Tx_toCbor_def demoEnv_def demoTxPartlySigned_def demoTxUnderpaid_def
      demoTxForeignSignature_def addDummySignatures_def emptyBody_def emptyWitnesses_def
      dummySignature_def demoSignature_def foreignSignature_def
      demoSignatureToCbor_def encodeBytes_def
      encodeTuple_def encodeDefList_def encodeMap_def encodeInt_def
      encodeDefHead_def padLeft_def encodeIntBE_def digits256.simps
      encodeNullOption_def encodeNull_def)

lemma demo_size_plain:
  "length (Tx_toCbor demoEnv True demoTxPartlySigned) = 113"
  "length (Tx_toCbor demoEnv True demoTxForeignSignature) = 113"
  by (simp_all add: Tx_toCbor_def demoEnv_def demoTxPartlySigned_def
      demoTxForeignSignature_def emptyBody_def emptyWitnesses_def
      demoSignature_def foreignSignature_def demoSignatureToCbor_def encodeBytes_def
      encodeTuple_def encodeDefList_def encodeMap_def encodeInt_def
      encodeDefHead_def padLeft_def encodeIntBE_def digits256.simps
      encodeNullOption_def encodeNull_def)

lemma demo_missing:
  "countMissingSignatures demoEnv demoTxPartlySigned = 1"
  "countMissingSignatures demoEnv demoTxUnderpaid = 1"
  "countMissingSignatures demoEnv demoTxForeignSignature = 0"
  by (simp_all add: countMissingSignatures_def demo_counts)

theorem calcSize_restores_witness:
  "calcSize demoEnv True demoTxPartlySigned = (214, demoTxPartlySigned)
   \<and> signatures (witnesses demoTxPartlySigned) = [demoSignature]
   \<and> countMissingSignatures demoEnv demoTxPartlySigned = 1
   \<and> length (Tx_toCbor demoEnv True demoTxPartlySigned) = 113"
proof -
  have s: "signatures (witnesses demoTxPartlySigned) = [demoSignature]"
    by (simp add: demoTxPartlySigned_def emptyWitnesses_def)
  have "fst (calcSize demoEnv True demoTxPartlySigned) = 214"
    using demo_size_for_fee(1)
    by (simp add: calcSize_True demo_missing)
  then show ?thesis
    using calcSize_restores [of demoEnv demoTxPartlySigned True] demo_missing demo_size_plain s
    by (simp add: prod_eq_iff)
qed

lemma validateFee_value:
  assumes a: "txFeeFixed params = Some a" and b: "txFeePerByte params = Some b"
    and ex: "calcExFee env params (witnesses tx) = Inr exFee"
  shows "validateFee env params tx =
           (if fee (body tx) < a + b * int (fst (calcSize env True tx)) + exFee
            then Inl (FeeTooSmall (a + b * int (fst (calcSize env True tx)) + exFee) (fee (body tx)))
            else Inr tx)"
  using ex
  by (simp add: validateFee_def calcMinFee_def txFeeParams_def expectSome_def a b calcSize_True
      mult.commute)

text \<open>
  Claim C2, as the code has it. With the fee parameters \<open>a\<close> (fixed) and \<open>b\<close> (per byte) and the execution
  fee \<open>exFee\<close>, the fee check passes exactly when the declared fee is at least
  \<open>a + b * size + exFee\<close>, where \<open>size\<close> is the length of the encoding without the valid
  flag, taken with placeholder signatures appended to the witnesses: as many as the
  count of unique signers of the body exceeds the count of signatures present that are
  not placeholders, whoever made them. The check leaves the transaction as it was. A
  declared fee equal to this minimum passes; one lovelace less fails.
\<close>

theorem validateFee_threshold:
  fixes env params tx a b exFee
  defines "n \<equiv> int (countUniqueSigners env (body tx))
                 - int (countNonDummySignatures env (witnesses tx))"
  defines "minFee \<equiv> a + b * int (length (Tx_toCbor env True
             (tx\<lparr>witnesses := (witnesses tx)
                  \<lparr>signatures := signatures (witnesses tx) @ replicate (nat n) dummySignature\<rparr>\<rparr>)))
           + exFee"
  assumes a: "txFeeFixed params = Some a" and b: "txFeePerByte params = Some b"
    and ex: "calcExFee env params (witnesses tx) = Inr exFee"
  shows "(validateFee env params tx = Inr tx) = (minFee \<le> fee (body tx))
       \<and> (validateFee env params tx = Inl (FeeTooSmall minFee (fee (body tx))))
           = (fee (body tx) < minFee)
       \<and> (fee (body tx) = minFee \<longrightarrow> validateFee env params tx = Inr tx)
       \<and> (fee (body tx) = minFee - 1 \<longrightarrow>
             validateFee env params tx = Inl (FeeTooSmall minFee (minFee - 1)))"
proof -
  have sz: "a + b * int (fst (calcSize env True tx)) + exFee = minFee"
    by (simp add: calcSize_True countMissingSignatures_def addDummySignatures_def
        minFee_def n_def)
  show ?thesis
    unfolding validateFee_value [OF a b ex] sz by auto
qed

theorem validateFee_threshold_witness:
  "validateFee demoEnv demoParams demoTxPartlySigned = Inr demoTxPartlySigned
   \<and> countUniqueSigners demoEnv (body demoTxPartlySigned) = 2
   \<and> countNonDummySignatures demoEnv (witnesses demoTxPartlySigned) = 1
   \<and> fee (body demoTxPartlySigned) = 155381 + 44 * 214 + 0
   \<and> validateFee demoEnv demoParams demoTxUnderpaid = Inl (FeeTooSmall 164797 164796)
   \<and> fee (body demoTxUnderpaid) = 164797 - 1"
proof -
  have p: "txFeeFixed demoParams = Some 155381" "txFeePerByte demoParams = Some 44"
    by (simp_all add: demoParams_def)
  have e1: "calcExFee demoEnv demoParams (witnesses demoTxPartlySigned) = Inr 0"
    by (simp add: demoEnv_def demoTxPartlySigned_def emptyWitnesses_def)
  have e2: "calcExFee demoEnv demoParams (witnesses demoTxUnderpaid) = Inr 0"
    by (simp add: demoEnv_def demoTxUnderpaid_def emptyWitnesses_def)
  have f1: "fee (body demoTxPartlySigned) = 164797" by (simp add: demoTxPartlySigned_def)
  have f2: "fee (body demoTxUnderpaid) = 164796" by (simp add: demoTxUnderpaid_def)
  have s1: "length (Tx_toCbor demoEnv True
     (demoTxPartlySigned\<lparr>witnesses := (witnesses demoTxPartlySigned)
        \<lparr>signatures := signatures (witnesses demoTxPartlySigned) @ [dummySignature]\<rparr>\<rparr>)) = 214"
    using demo_size_for_fee(1) by (simp add: addDummySignatures_def)
  have s2: "length (Tx_toCbor demoEnv True
     (demoTxUnderpaid\<lparr>witnesses := (witnesses demoTxUnderpaid)
        \<lparr>signatures := signatures (witnesses demoTxUnderpaid) @ [dummySignature]\<rparr>\<rparr>)) = 214"
    using demo_size_for_fee(2) by (simp add: addDummySignatures_def)
  show ?thesis
    using validateFee_threshold [OF p e1] validateFee_threshold [OF p e2]
    by (simp add: demo_counts s1 s2 f1 f2)
qed

text \<open>A transaction whose one required signer has not signed and which carries the
  signature of another key: the count of placeholders is zero, and the check passes
  on a fee below the minimum taken with one placeholder for the signer not yet
  signing.\<close>

theorem validateFee_foreign_signature:
  "signersNotYetSigning demoTxForeignSignature = [replicate 28 1]
   \<and> countMissingSignatures demoEnv demoTxForeignSignature = 0
   \<and> fst (calcSize demoEnv True demoTxForeignSignature)
       = length (Tx_toCbor demoEnv True demoTxForeignSignature)
   \<and> validateFee demoEnv demoParams demoTxForeignSignature = Inr demoTxForeignSignature
   \<and> fee (body demoTxForeignSignature) = 160353
   \<and> 155381 + 44 * int (length (Tx_toCbor demoEnv True
        (demoTxForeignSignature\<lparr>witnesses :=
           addDummySignatures 1 (witnesses demoTxForeignSignature)\<rparr>))) + 0 = (164797::int)"
proof -
  have p: "txFeeFixed demoParams = Some 155381" "txFeePerByte demoParams = Some 44"
    by (simp_all add: demoParams_def)
  have e: "calcExFee demoEnv demoParams (witnesses demoTxForeignSignature) = Inr 0"
    by (simp add: demoEnv_def demoTxForeignSignature_def emptyWitnesses_def)
  have f: "fee (body demoTxForeignSignature) = 160353"
    by (simp add: demoTxForeignSignature_def)
  have n: "signersNotYetSigning demoTxForeignSignature = [replicate 28 1]"
    by (simp add: signersNotYetSigning_def requiredSigners_def demoTxForeignSignature_def
        emptyBody_def emptyWitnesses_def foreignSignature_def List.map_filter_simps)
  have sz: "fst (calcSize demoEnv True demoTxForeignSignature) = 113"
    using demo_size_for_fee(4) by (simp add: calcSize_True demo_missing)
  have v: "validateFee demoEnv demoParams demoTxForeignSignature = Inr demoTxForeignSignature"
    by (simp add: validateFee_value [OF p e] sz f)
  show ?thesis
    using n v sz by (simp add: demo_missing demo_size_plain demo_size_for_fee f)
qed

subsection \<open>Tx.validateCollateral\<close>

lemma bitLength_le: "n < 2 ^ k \<Longrightarrow> bitLength n \<le> k"
proof (induction k arbitrary: n)
  case 0
  then show ?case by (simp add: bitLength.simps)
next
  case (Suc k)
  have "n div 2 < 2 ^ k" using Suc.prems by auto
  then have "bitLength (n div 2) \<le> k" by (rule Suc.IH)
  then show ?case by (subst bitLength.simps) simp
qed

lemma toDouble_exact: "\<bar>n\<bar> < 2 ^ 53 \<Longrightarrow> toDouble n = Some n"
proof -
  assume a: "\<bar>n\<bar> < 2 ^ 53"
  then have "nat \<bar>n\<bar> < 2 ^ 53" by (simp add: nat_less_iff)
  then have "bitLength (nat \<bar>n\<bar>) \<le> 53" by (rule bitLength_le)
  then show ?thesis by (simp add: toDouble_def Let_def)
qed

lemma roundHalfEven_bounds:
  assumes "0 < den"
  shows "2 * roundHalfEven num den * den \<le> 2 * num + den
       \<and> 2 * num \<le> 2 * roundHalfEven num den * den + den"
proof -
  define q where "q = num div den"
  define r where "r = num mod den"
  have n: "num = q * den + r" by (simp add: q_def r_def)
  have r: "r < den" using assms by (simp add: r_def)
  have m: "roundHalfEven num den
             = (if 2 * r < den then q else if den < 2 * r then q + 1
                else if even q then q else q + 1)"
    by (simp add: roundHalfEven_def Let_def q_def r_def)
  show ?thesis unfolding m using r by (auto simp: n algebra_simps)
qed

text \<open>The model of the double arithmetic rounds to the nearest double.\<close>

lemma bitLength_pos: "0 < n \<Longrightarrow> 0 < bitLength n"
  by (subst bitLength.simps) simp

lemma bitLength_bounds:
  "0 < n \<Longrightarrow> (2::nat) ^ (bitLength n - 1) \<le> n \<and> n < 2 * 2 ^ (bitLength n - 1)"
proof (induction n rule: bitLength.induct)
  case (1 n)
  show ?case
  proof (cases "n div 2 = 0")
    case True
    with 1 have "n = 1" by auto
    then show ?thesis by (simp add: bitLength.simps)
  next
    case False
    then have ih: "(2::nat) ^ (bitLength (n div 2) - 1) \<le> n div 2"
        "n div 2 < 2 * 2 ^ (bitLength (n div 2) - 1)"
      using 1 by auto
    have pos: "0 < bitLength (n div 2)" using False by (simp add: bitLength_pos)
    have b: "bitLength n - 1 = Suc (bitLength (n div 2) - 1)"
      using 1 pos by (subst bitLength.simps) simp
    show ?thesis using ih unfolding b by (simp del: One_nat_def) linarith
  qed
qed

text \<open>The exponent chosen puts the scaled quotient between \<open>2^52\<close> and \<open>2^53\<close>.\<close>

lemma quotientExponent_normal:
  fixes a d :: nat
  assumes a: "0 < a" and d: "0 < d"
  defines "e \<equiv> quotientExponent a d"
  shows "2 ^ 52 * (d * 2 ^ nat e) \<le> a * 2 ^ nat (- e)
       \<and> a * 2 ^ nat (- e) < 2 ^ 53 * (d * 2 ^ nat e)"
proof -
  define la where "la = bitLength a"
  define lb where "lb = bitLength d"
  define Pa :: nat where "Pa = 2 ^ (la - 1)"
  define Pd :: nat where "Pd = 2 ^ (lb - 1)"
  have A: "Pa \<le> a" "a < 2 * Pa"
    using bitLength_bounds [OF a] by (simp_all add: Pa_def la_def)
  have D: "Pd \<le> d" "d < 2 * Pd"
    using bitLength_bounds [OF d] by (simp_all add: Pd_def lb_def)
  have la: "0 < la" using a by (simp add: la_def bitLength_pos)
  have lb: "0 < lb" using d by (simp add: lb_def bitLength_pos)
  have E: "e = (let s = int la - int lb
                in if a * 2 ^ nat (- s) < d * 2 ^ nat s then s - 53 else s - 52)"
    by (simp add: e_def quotientExponent_def la_def lb_def)
  show ?thesis
  proof (cases "lb \<le> la")
    case True
    define t where "t = la - lb"
    define T :: nat where "T = 2 ^ t"
    have s: "int la - int lb = int t" using True by (simp add: t_def)
    have "la - 1 = (lb - 1) + t" using True lb by (simp add: t_def)
    then have Pa: "Pa = Pd * T" by (simp add: Pa_def Pd_def T_def power_add)
    have T: "0 < T" by (simp add: T_def)
    have dT: "d * T < 2 * (Pd * T)"
      using mult_less_mono1 [OF D(2) T] by (simp add: mult.assoc)
    have aT: "Pd * T \<le> a" "a < 2 * (Pd * T)" using A by (simp_all add: Pa)
    show ?thesis
    proof (cases "a < d * T")
      case test: True
      then have e: "e = int t - 53" by (simp add: E s T_def)
      show ?thesis
      proof (cases "53 \<le> t")
        case True
        define X where "X = d * 2 ^ (t - 53)"
        have "t = 53 + (t - 53)" using True by simp
        then have "T = 2 ^ 53 * 2 ^ (t - 53)"
          unfolding T_def by (subst power_add [symmetric]) simp
        then have x: "d * T = 2 ^ 53 * X" by (simp add: X_def)
        have n: "nat e = t - 53" "nat (- e) = 0" using True by (simp_all add: e)
        have "2 ^ 52 * X \<le> a \<and> a < 2 ^ 53 * X"
          using test aT dT unfolding x by simp
        then show ?thesis unfolding n X_def by simp
      next
        case False
        define W :: nat where "W = 2 ^ (53 - t)"
        define X where "X = a * W"
        have "53 = t + (53 - t)" using False by simp
        then have TW: "(2::nat) ^ 53 = T * W"
          unfolding T_def W_def by (subst power_add [symmetric]) simp
        have W: "0 < W" by (simp add: W_def)
        have n: "nat e = 0" "nat (- e) = 53 - t" using False by (simp_all add: e)
        have k: "(k * T) * W = 2 ^ 53 * k" for k
          unfolding TW by (simp only: mult_ac)
        have "a * W < (d * T) * W" using test W by (rule mult_less_mono1)
        then have f1: "X < 2 ^ 53 * d" unfolding k X_def .
        have "(Pd * T) * W \<le> a * W" using aT(1) by (rule mult_le_mono1)
        then have f2: "2 ^ 53 * Pd \<le> X" unfolding k X_def .
        have "2 ^ 52 * d \<le> X \<and> X < 2 ^ 53 * d"
          using f1 f2 D by simp
        then show ?thesis unfolding n X_def W_def by simp
      qed
    next
      case test: False
      then have e: "e = int t - 52" by (simp add: E s T_def)
      from test have test': "d * T \<le> a" by simp
      show ?thesis
      proof (cases "52 \<le> t")
        case True
        define X where "X = d * 2 ^ (t - 52)"
        have "t = 52 + (t - 52)" using True by simp
        then have "T = 2 ^ 52 * 2 ^ (t - 52)"
          unfolding T_def by (subst power_add [symmetric]) simp
        then have x: "d * T = 2 ^ 52 * X" "Pd * T = 2 ^ 52 * (Pd * 2 ^ (t - 52))"
          by (simp_all add: X_def)
        have "Pd * 2 ^ (t - 52) \<le> X" unfolding X_def using D(1) by (rule mult_le_mono1)
        then have y: "Pd * T \<le> 2 ^ 52 * X" unfolding x by simp
        have n: "nat e = t - 52" "nat (- e) = 0" using True by (simp_all add: e)
        have "2 ^ 52 * X \<le> a \<and> a < 2 ^ 53 * X"
          using test' aT y unfolding x(1) by simp
        then show ?thesis unfolding n X_def by simp
      next
        case False
        define W :: nat where "W = 2 ^ (52 - t)"
        define X where "X = a * W"
        have "52 = t + (52 - t)" using False by simp
        then have TW: "(2::nat) ^ 52 = T * W"
          unfolding T_def W_def by (subst power_add [symmetric]) simp
        have W: "0 < W" by (simp add: W_def)
        have n: "nat e = 0" "nat (- e) = 52 - t" using False by (simp_all add: e)
        have k: "(k * T) * W = 2 ^ 52 * k" for k
          unfolding TW by (simp only: mult_ac)
        have "(d * T) * W \<le> a * W" using test' by (rule mult_le_mono1)
        then have f1: "2 ^ 52 * d \<le> X" unfolding k X_def .
        have "a < (2 * Pd) * T" using aT(2) by (simp only: mult.assoc)
        then have "a * W < ((2 * Pd) * T) * W" using W by (rule mult_less_mono1)
        then have f2: "X < 2 ^ 52 * (2 * Pd)" unfolding k X_def .
        have "2 ^ 52 * d \<le> X \<and> X < 2 ^ 53 * d"
          using f1 f2 D by simp
        then show ?thesis unfolding n X_def W_def by simp
      qed
    qed
  next
    case False
    define u where "u = lb - la"
    define U :: nat where "U = 2 ^ u"
    define X where "X = a * U"
    have s: "int la - int lb = - int u" using False by (simp add: u_def)
    have "lb - 1 = (la - 1) + u" using False la by (simp add: u_def)
    then have Pd: "Pd = Pa * U" by (simp add: Pa_def Pd_def U_def power_add)
    have U: "0 < U" by (simp add: U_def)
    have "Pa * U \<le> a * U" using A(1) by (rule mult_le_mono1)
    then have f1: "Pd \<le> X" by (simp add: Pd X_def)
    have "a * U < (2 * Pa) * U" using A(2) U by (rule mult_less_mono1)
    then have f2: "X < 2 * Pd" by (simp add: Pd X_def)
    show ?thesis
    proof (cases "a * U < d")
      case test: True
      then have e: "e = - int u - 53" by (simp add: E s U_def)
      have n: "nat e = 0" "nat (- e) = u + 53" by (simp_all add: e nat_add_distrib)
      have x: "a * 2 ^ (u + 53) = 2 ^ 53 * X" by (simp add: X_def U_def power_add)
      have "2 ^ 52 * d \<le> 2 ^ 53 * X \<and> 2 ^ 53 * X < 2 ^ 53 * d"
        using test f1 D unfolding X_def [symmetric] by simp
      then show ?thesis unfolding n x by simp
    next
      case test: False
      then have e: "e = - int u - 52" by (simp add: E s U_def)
      have n: "nat e = 0" "nat (- e) = u + 52" by (simp_all add: e nat_add_distrib)
      have x: "a * 2 ^ (u + 52) = 2 ^ 52 * X" by (simp add: X_def U_def power_add)
      have "2 ^ 52 * d \<le> 2 ^ 52 * X \<and> 2 ^ 52 * X < 2 ^ 53 * d"
        using test f2 D unfolding X_def [symmetric] by simp
      then show ?thesis unfolding n x by simp
    qed
  qed
qed

text \<open>The double of an integer is a multiple of the unit of its binade, within half a
  unit of the integer, and it is finite.\<close>

lemma toDouble_nearest:
  assumes v: "toDouble n = Some v"
  defines "k \<equiv> nat (int (bitLength (nat \<bar>n\<bar>)) - 53)"
  shows "2 ^ k dvd v \<and> 2 * \<bar>v - n\<bar> \<le> 2 ^ k \<and> \<bar>v\<bar> < 2 ^ 1024"
proof -
  define m where "m = roundHalfEven (nat \<bar>n\<bar>) (2 ^ k)"
  have val: "v = (if int (bitLength (nat \<bar>n\<bar>)) - 53 \<le> 0 then n else sgn n * int m * 2 ^ k)"
    and fin: "bitLength (nat \<bar>v\<bar>) \<le> 1024"
    using v by (simp_all add: toDouble_def Let_def k_def m_def split: if_splits)
  have finite: "\<bar>v\<bar> < 2 ^ 1024"
  proof (cases "v = 0")
    case True
    then show ?thesis by simp
  next
    case False
    then have "0 < nat \<bar>v\<bar>" by simp
    then have "nat \<bar>v\<bar> < 2 * 2 ^ (bitLength (nat \<bar>v\<bar>) - 1)"
      and p: "0 < bitLength (nat \<bar>v\<bar>)"
      using bitLength_bounds bitLength_pos by blast+
    moreover have "(2::nat) * 2 ^ (bitLength (nat \<bar>v\<bar>) - 1) = 2 ^ bitLength (nat \<bar>v\<bar>)"
      using p by (simp add: power_eq_if)
    moreover have "(2::nat) ^ bitLength (nat \<bar>v\<bar>) \<le> 2 ^ 1024"
      using fin by (simp only: power_increasing one_le_numeral)
    ultimately have "nat \<bar>v\<bar> < 2 ^ 1024" by linarith
    then show ?thesis by (simp add: nat_less_iff)
  qed
  show ?thesis
  proof (cases "int (bitLength (nat \<bar>n\<bar>)) - 53 \<le> 0")
    case True
    then have "k = 0" "v = n" by (simp_all add: k_def val)
    then show ?thesis using finite by simp
  next
    case False
    then have vv: "v = sgn n * int m * 2 ^ k" by (simp add: val)
    from False have "n \<noteq> 0" by (auto simp: bitLength.simps)
    then have sg: "n = sgn n * \<bar>n\<bar>" "\<bar>sgn n\<bar> = 1" by (simp_all add: mult_sgn_abs)
    have b: "2 * m * 2 ^ k \<le> 2 * nat \<bar>n\<bar> + 2 ^ k" "2 * nat \<bar>n\<bar> \<le> 2 * m * 2 ^ k + 2 ^ k"
      using roundHalfEven_bounds [of "2 ^ k" "nat \<bar>n\<bar>"] by (simp_all add: m_def)
    then have "int (2 * m * 2 ^ k) \<le> int (2 * nat \<bar>n\<bar> + 2 ^ k)"
        "int (2 * nat \<bar>n\<bar>) \<le> int (2 * m * 2 ^ k + 2 ^ k)"
      by (simp_all only: of_nat_le_iff)
    then have "2 * (int m * 2 ^ k) \<le> 2 * \<bar>n\<bar> + 2 ^ k"
        "2 * \<bar>n\<bar> \<le> 2 * (int m * 2 ^ k) + 2 ^ k"
      by (simp_all add: mult.assoc)
    moreover have "2 * y \<le> 2 * x + z \<Longrightarrow> 2 * x \<le> 2 * y + z \<Longrightarrow> 2 * \<bar>y - x\<bar> \<le> z"
      for x y z :: int by (simp add: abs_if)
    ultimately have c: "2 * \<bar>int m * 2 ^ k - \<bar>n\<bar>\<bar> \<le> 2 ^ k" by blast
    have "v - n = sgn n * (int m * 2 ^ k - \<bar>n\<bar>)"
      using sg(1) by (simp add: vv algebra_simps)
    then have "\<bar>v - n\<bar> = \<bar>int m * 2 ^ k - \<bar>n\<bar>\<bar>"
      using sg(2) by (simp add: abs_mult)
    then show ?thesis using c finite by (simp add: vv)
  qed
qed

lemma quotient_floor:
  fixes a P :: nat
  assumes P: "64 \<le> P"
  shows "roundHalfEven (a * P) 100 div P = a div 100"
proof -
  define m where "m = roundHalfEven (a * P) 100"
  define f where "f = a div 100"
  have b: "200 * m \<le> 2 * (a * P) + 100" "2 * (a * P) \<le> 200 * m + 100"
    using roundHalfEven_bounds [of 100 "a * P"] by (simp_all add: m_def)
  have "100 * f \<le> a" "a \<le> 100 * f + 99" by (simp_all add: f_def)
  then have "(100 * f) * P \<le> a * P" "a * P \<le> (100 * f + 99) * P"
    by (simp_all only: mult_le_mono1)
  then have c: "100 * (f * P) \<le> a * P" "a * P \<le> 100 * (f * P) + 99 * P"
    by (simp_all add: algebra_simps)
  define X where "X = P * f"
  have d: "100 * X \<le> a * P" "a * P \<le> 100 * X + 99 * P"
    using c by (simp_all add: X_def mult.commute)
  have "X \<le> m" using b d by linarith
  moreover have "m < X + P" using b d P by linarith
  ultimately have "P * f \<le> m" "m < P * Suc f" by (simp_all add: X_def)
  then have "m div P = f" by (rule div_nat_eqI)
  then show ?thesis by (simp add: m_def f_def)
qed

lemma quotient_ceil:
  fixes a P :: nat
  assumes P: "64 \<le> P"
  shows "- ((- int (roundHalfEven (a * P) 100)) div int P) = - ((- int a) div 100)"
proof -
  define m where "m = int (roundHalfEven (a * P) 100)"
  define c where "c = - ((- int a) div 100)"
  define X where "X = c * int P"
  define Y where "Y = int a * int P"
  have "200 * roundHalfEven (a * P) 100 \<le> 2 * (a * P) + 100"
       "2 * (a * P) \<le> 200 * roundHalfEven (a * P) 100 + 100"
    using roundHalfEven_bounds [of 100 "a * P"] by simp_all
  then have "int (200 * roundHalfEven (a * P) 100) \<le> int (2 * (a * P) + 100)"
       "int (2 * (a * P)) \<le> int (200 * roundHalfEven (a * P) 100 + 100)"
    by (simp_all only: of_nat_le_iff)
  then have b: "200 * m \<le> 2 * Y + 100" "2 * Y \<le> 200 * m + 100"
    by (simp_all add: m_def Y_def)
  have "int a \<le> 100 * c" "100 * c \<le> int a + 99"
    unfolding c_def by presburger+
  then have "int a * int P \<le> (100 * c) * int P" "(100 * c) * int P \<le> (int a + 99) * int P"
    by (simp_all only: mult_right_mono of_nat_0_le_iff)
  then have d: "Y \<le> 100 * X" "100 * X \<le> Y + 99 * int P"
    by (simp_all add: X_def Y_def algebra_simps)
  have lo: "X - int P < m" using b d P by linarith
  have hi: "m \<le> X" using b d by linarith
  have "(- m) div int P = - c"
  proof (rule int_div_pos_eq [where r = "X - m"])
    show "- m = int P * - c + (X - m)" by (simp add: X_def algebra_simps)
    show "0 \<le> X - m" using hi by simp
    show "X - m < int P" using lo by simp
  qed
  then show ?thesis by (simp add: m_def c_def)
qed

lemma bitLength_100: "bitLength 100 = 7"
  by (simp add: bitLength.simps)

lemma ceilOfQuotient_exact:
  assumes "\<bar>p\<bar> < 2 ^ 53"
  shows "ceilOfQuotient p 100 = - ((- p) div 100)"
proof (cases "p = 0")
  case True
  then show ?thesis by (simp add: ceilOfQuotient_def)
next
  case False
  define a where "a = nat \<bar>p\<bar>"
  define e where "e = quotientExponent a 100"
  define k where "k = nat (- e)"
  have "a < 2 ^ 53" using assms unfolding a_def by (simp add: nat_less_iff)
  then have "bitLength a \<le> 53" by (rule bitLength_le)
  then have e: "e \<le> - 6" by (simp add: e_def quotientExponent_def Let_def bitLength_100)
  then have k: "6 \<le> k" "nat e = 0" "\<not> 0 \<le> e" by (simp_all add: k_def)
  have "(2::nat) ^ 6 \<le> 2 ^ k" using k(1) by (simp only: power_increasing one_le_numeral)
  then have P: "64 \<le> (2::nat) ^ k" by simp
  have v: "ceilOfQuotient p 100
             = - ((- (sgn p * int (roundHalfEven (a * 2 ^ k) 100))) div 2 ^ k)"
    using False k(2,3)
    by (simp add: ceilOfQuotient_def Let_def k_def e_def a_def)
  show ?thesis
  proof (cases "0 < p")
    case True
    then have "int a = p" "sgn p = 1" by (simp_all add: a_def)
    then show ?thesis using quotient_ceil [OF P, of a] by (simp add: v)
  next
    case neg: False
    with False have "int a = - p" "sgn p = - 1" by (simp_all add: a_def)
    moreover have "int (roundHalfEven (a * 2 ^ k) 100) div 2 ^ k = int a div 100"
    proof -
      have "int (roundHalfEven (a * 2 ^ k) 100 div 2 ^ k) = int (a div 100)"
        using quotient_floor [OF P, of a] by simp
      then show ?thesis by (simp add: zdiv_int)
    qed
    ultimately show ?thesis by (simp add: v)
  qed
qed

text \<open>Below \<open>2^53\<close> the double arithmetic is exact up to the one rounding of the
  quotient, which does not move its ceiling.\<close>

lemma minCollateralOf_exact:
  assumes "\<bar>pct\<bar> < 2 ^ 53" "\<bar>f\<bar> < 2 ^ 53" "\<bar>pct * f\<bar> < 2 ^ 53"
  shows "minCollateralOf pct f = Some (exactCeilPct pct f)"
  using assms
  by (simp add: minCollateralOf_def toDouble_exact ceilOfQuotient_exact exactCeilPct_def)


lemma ceil100: "(x::int) \<le> 100 * (- ((- x) div 100)) \<and> 100 * (- ((- x) div 100)) < x + 100"
  by presburger

lemma exactCeilPct_bounds:
  "pct * f \<le> 100 * exactCeilPct pct f \<and> 100 * exactCeilPct pct f < pct * f + 100"
  unfolding exactCeilPct_def by (rule ceil100)

lemma sumCollateral_Inr:
  "(\<exists>s'. sumCollateral s cols = Inr s')
     = (\<forall>col\<in>set cols. \<exists>out. origOutput col = Some out \<and> assets (ovalue out) = [])"
  by (induction cols arbitrary: s) (auto simp: Assets_isZero_def split: option.splits)

lemma sumCollateral_lovelace:
  "sumCollateral s cols = Inr s' \<Longrightarrow>
     lovelace s' = lovelace s + sum_list (map collateralLovelace cols)"
  by (induction cols arbitrary: s)
     (auto simp: collateralLovelace_def Value_add_def split: option.splits if_splits)

lemma lovelace_afterReturn:
  "lovelace (case collateralReturn b of None \<Rightarrow> s | Some ret \<Rightarrow> Value_subtract s (ovalue ret))
     = lovelace s - collateralReturnLovelace b"
  by (simp add: collateralReturnLovelace_def Value_subtract_def split: option.splits)

text \<open>The check on a script transaction whose collateral inputs are not too many, with
  the minimum that the code computes.\<close>

lemma validateCollateral_smart:
  assumes mx: "maxCollateralInputsParam params = Some maxN"
    and pc: "collateralPercentage params = Some pct"
    and le: "int (length (collateral (body tx))) \<le> maxN"
    and smart: "isSmart env (witnesses tx)"
    and mc: "minCollateralOf pct (fee (body tx)) = Some m"
    and sum: "sumCollateral (newValue 0) (collateral (body tx)) = Inr s"
  shows "validateCollateral env params tx
           = (if sum_list (map collateralLovelace (collateral (body tx)))
                   - collateralReturnLovelace (body tx) < m
              then Inl NotEnoughCollateral
              else Inr (if 5 * m < sum_list (map collateralLovelace (collateral (body tx)))
                                     - collateralReturnLovelace (body tx)
                        then [WayTooMuchCollateral] else []))"
proof -
  have P: "maxCollateralInputs params = Inr maxN" "minCollateralPct params = Inr pct"
    by (simp_all add: maxCollateralInputs_def minCollateralPct_def expectSome_def mx pc)
  have l: "lovelace (case collateralReturn (body tx) of None \<Rightarrow> s
                     | Some ret \<Rightarrow> Value_subtract s (ovalue ret))
             = sum_list (map collateralLovelace (collateral (body tx)))
                 - collateralReturnLovelace (body tx)"
    using sumCollateral_lovelace [OF sum] by (simp add: lovelace_afterReturn newValue_def)
  show ?thesis
    using le smart
    by (simp add: validateCollateral_def P mc sum Let_def l mult.commute)
qed

text \<open>
  Claim C7, as the code has it. On a parameter snapshot that gives the maximum number of collateral inputs
  (not negative) and the collateral percentage, with the percentage, the fee and their
  product below \<open>2^53\<close> in magnitude: the minimum that the code computes in double
  arithmetic is \<open>ceil(fee * pct / 100)\<close>; when a script is invoked, the collateral check
  passes exactly when the collateral inputs number at most the maximum, each has its
  output set and carries no assets, and their summed lovelace minus the lovelace of the
  collateral return is at least that minimum; when no script is invoked it passes
  exactly when there is no collateral input. Collateral above five times the minimum
  adds a warning to a check that passes, and never makes it fail.
\<close>

theorem validateCollateral_spec:
  fixes env params tx maxN pct
  defines "cols \<equiv> collateral (body tx)"
    and "net \<equiv> sum_list (map collateralLovelace (collateral (body tx)))
                  - collateralReturnLovelace (body tx)"
    and "minCollateral \<equiv> exactCeilPct pct (fee (body tx))"
  assumes mx: "maxCollateralInputsParam params = Some maxN" and nn: "0 \<le> maxN"
    and pc: "collateralPercentage params = Some pct"
    and bp: "\<bar>pct\<bar> < 2 ^ 53" and bf: "\<bar>fee (body tx)\<bar> < 2 ^ 53"
    and bm: "\<bar>pct * fee (body tx)\<bar> < 2 ^ 53"
  shows "minCollateralOf pct (fee (body tx)) = Some minCollateral
       \<and> (isSmart env (witnesses tx) \<longrightarrow>
            (\<exists>ws. validateCollateral env params tx = Inr ws)
              = (int (length cols) \<le> maxN
                 \<and> (\<forall>col\<in>set cols. \<exists>out. origOutput col = Some out \<and> assets (ovalue out) = [])
                 \<and> minCollateral \<le> net))
       \<and> (\<not> isSmart env (witnesses tx) \<longrightarrow>
            (validateCollateral env params tx = Inr []) = (cols = [])
            \<and> (cols \<noteq> [] \<longrightarrow> (\<exists>e. validateCollateral env params tx = Inl e)))
       \<and> (\<forall>ws. validateCollateral env params tx = Inr ws \<longrightarrow>
             ws = (if isSmart env (witnesses tx) \<and> 5 * minCollateral < net
                   then [WayTooMuchCollateral] else []))
       \<and> fee (body tx) * pct \<le> 100 * minCollateral
       \<and> 100 * minCollateral < fee (body tx) * pct + 100"
proof -
  have P: "maxCollateralInputs params = Inr maxN" "minCollateralPct params = Inr pct"
    by (simp_all add: maxCollateralInputs_def minCollateralPct_def expectSome_def mx pc)
  have mc: "minCollateralOf pct (fee (body tx)) = Some minCollateral"
    unfolding minCollateral_def using bp bf bm by (rule minCollateralOf_exact)
  have ceil: "fee (body tx) * pct \<le> 100 * minCollateral
       \<and> 100 * minCollateral < fee (body tx) * pct + 100"
    using exactCeilPct_bounds [of pct "fee (body tx)"] by (simp add: minCollateral_def mult.commute)
  have main: "(isSmart env (witnesses tx) \<longrightarrow>
            (\<exists>ws. validateCollateral env params tx = Inr ws)
              = (int (length cols) \<le> maxN
                 \<and> (\<forall>col\<in>set cols. \<exists>out. origOutput col = Some out \<and> assets (ovalue out) = [])
                 \<and> minCollateral \<le> net))
       \<and> (\<not> isSmart env (witnesses tx) \<longrightarrow>
            (validateCollateral env params tx = Inr []) = (cols = [])
            \<and> (cols \<noteq> [] \<longrightarrow> (\<exists>e. validateCollateral env params tx = Inl e)))
       \<and> (\<forall>ws. validateCollateral env params tx = Inr ws \<longrightarrow>
             ws = (if isSmart env (witnesses tx) \<and> 5 * minCollateral < net
                   then [WayTooMuchCollateral] else []))"
  proof (cases "maxN < int (length cols)")
    case True
    then have v: "validateCollateral env params tx = Inl TooManyCollateralInputs"
      by (simp add: validateCollateral_def P cols_def)
    from True nn have "cols \<noteq> []" by auto
    with True show ?thesis by (simp add: v)
  next
    case le: False
    show ?thesis
    proof (cases "isSmart env (witnesses tx)")
      case False
      with le have v: "validateCollateral env params tx
                     = (if cols \<noteq> [] then Inl UnnecessaryCollateral else Inr [])"
        by (simp add: validateCollateral_def P cols_def)
      from False show ?thesis by (simp add: v)
    next
      case True
      show ?thesis
      proof (cases "sumCollateral (newValue 0) cols")
        case (Inl e)
        then have "\<not> (\<forall>col\<in>set cols. \<exists>out. origOutput col = Some out \<and> assets (ovalue out) = [])"
          using sumCollateral_Inr [of "newValue 0" cols] by simp
        moreover have v: "validateCollateral env params tx = Inl e"
          using le True Inl by (simp add: validateCollateral_def P mc cols_def)
        ultimately show ?thesis using True by (simp add: v)
      next
        case (Inr s)
        then have a: "\<forall>col\<in>set cols. \<exists>out. origOutput col = Some out \<and> assets (ovalue out) = []"
          using sumCollateral_Inr [of "newValue 0" cols] by blast
        have le': "int (length (collateral (body tx))) \<le> maxN"
          using le by (simp add: cols_def)
        have v: "validateCollateral env params tx
                   = (if net < minCollateral then Inl NotEnoughCollateral
                      else Inr (if 5 * minCollateral < net then [WayTooMuchCollateral] else []))"
          unfolding net_def
          by (rule validateCollateral_smart [OF mx pc le' True mc Inr [unfolded cols_def]])
        show ?thesis using True le a by (simp add: v not_less)
      qed
    qed
  qed
  from mc main ceil show ?thesis by blast
qed

theorem validateCollateral_spec_witness:
  "isSmart demoEnv (witnesses demoTxSmart)
   \<and> validateCollateral demoEnv demoParams demoTxSmart = Inr [WayTooMuchCollateral]
   \<and> minCollateralOf 150 (fee (body demoTxSmart)) = Some 1500000
   \<and> exactCeilPct 150 (fee (body demoTxSmart)) = 1500000
   \<and> sum_list (map collateralLovelace (collateral (body demoTxSmart))) = 8000000"
proof -
  have h: "maxCollateralInputsParam demoParams = Some 3" "(0::int) \<le> 3"
    "collateralPercentage demoParams = Some 150"
    by (simp_all add: demoParams_def)
  have bounds: "\<bar>150::int\<bar> < 2 ^ 53" "\<bar>fee (body demoTxSmart)\<bar> < 2 ^ 53"
    "\<bar>150 * fee (body demoTxSmart)\<bar> < 2 ^ 53"
    by (simp_all add: demoTxSmart_def emptyBody_def)
  have s: "isSmart demoEnv (witnesses demoTxSmart)"
    by (simp add: demoEnv_def demoTxSmart_def emptyWitnesses_def)
  have c: "exactCeilPct 150 (fee (body demoTxSmart)) = 1500000"
    by (simp add: exactCeilPct_def demoTxSmart_def emptyBody_def)
  have n: "sum_list (map collateralLovelace (collateral (body demoTxSmart))) = 8000000"
    "collateralReturnLovelace (body demoTxSmart) = 0"
    "collateral (body demoTxSmart) = [demoCollateral]"
    "origOutput demoCollateral = Some (setLovelace 8000000 demoOutput)"
    "assets (ovalue (setLovelace 8000000 demoOutput)) = []"
    "collateralLovelace demoCollateral = 8000000"
    by (simp_all add: demoTxSmart_def emptyBody_def collateralLovelace_def demoCollateral_def
        setLovelace_def demoOutput_def collateralReturnLovelace_def)
  note spec = validateCollateral_spec [OF h bounds, of demoEnv]
  from spec have m: "minCollateralOf 150 (fee (body demoTxSmart)) = Some 1500000"
    by (simp add: c)
  from spec s have "(\<exists>ws. validateCollateral demoEnv demoParams demoTxSmart = Inr ws)
      = (int (length (collateral (body demoTxSmart))) \<le> 3
         \<and> (\<forall>col\<in>set (collateral (body demoTxSmart)).
               \<exists>out. origOutput col = Some out \<and> assets (ovalue out) = [])
         \<and> exactCeilPct 150 (fee (body demoTxSmart))
             \<le> sum_list (map collateralLovelace (collateral (body demoTxSmart)))
                - collateralReturnLovelace (body demoTxSmart))"
    by blast
  then have "\<exists>ws. validateCollateral demoEnv demoParams demoTxSmart = Inr ws"
    by (simp add: c n)
  then obtain ws where ws: "validateCollateral demoEnv demoParams demoTxSmart = Inr ws" ..
  with spec have "ws = (if isSmart demoEnv (witnesses demoTxSmart)
        \<and> 5 * exactCeilPct 150 (fee (body demoTxSmart))
            < sum_list (map collateralLovelace (collateral (body demoTxSmart)))
              - collateralReturnLovelace (body demoTxSmart)
      then [WayTooMuchCollateral] else [])"
    by blast
  then have "ws = [WayTooMuchCollateral]" by (simp add: s c n)
  with ws s c n m show ?thesis by simp
qed

text \<open>At the percentage 150 and the fee 240191980126434 the product is rounded up, and
  the code asks one lovelace more than \<open>ceil(fee * pct / 100)\<close>.\<close>

lemma demo_rounding_up:
  "minCollateralOf 150 240191980126434 = Some 360287970189652"
  "exactCeilPct 150 240191980126434 = 360287970189651"
proof -
  have b: "bitLength 36028797018965100 = 56" "bitLength 36028797018965104 = 56"
    "bitLength 100 = 7"
    by (simp_all add: bitLength.simps)
  have r: "roundHalfEven 36028797018965100 8 = 4503599627370638"
    "roundHalfEven 576460752303441664 100 = 5764607523034417"
    by (simp_all add: roundHalfEven_def Let_def)
  have e: "quotientExponent 36028797018965104 100 = - 4"
    by (simp add: quotientExponent_def Let_def b)
  have p: "toDouble 36028797018965100 = Some 36028797018965104"
    by (simp add: toDouble_def Let_def b r)
  have q: "ceilOfQuotient 36028797018965104 100 = 360287970189652"
    by (simp add: ceilOfQuotient_def Let_def e r)
  show "minCollateralOf 150 240191980126434 = Some 360287970189652"
    by (simp add: minCollateralOf_def toDouble_exact p q)
  show "exactCeilPct 150 240191980126434 = 360287970189651"
    by (simp add: exactCeilPct_def)
qed

text \<open>The fee \<open>2^53 + 1\<close> is not a double: \<^verbatim>\<open>Number(fee)\<close> is \<open>2^53\<close>, and at the
  percentage 100 the minimum that the code computes is \<open>2^53\<close>, one below
  \<open>ceil(fee * pct / 100)\<close>. A collateral of \<open>2^53\<close> lovelace passes the check.\<close>

lemma demo_rounding:
  "toDouble 100 = Some 100"
  "toDouble 9007199254740993 = Some 9007199254740992"
  "toDouble 900719925474099200 = Some 900719925474099200"
  "ceilOfQuotient 900719925474099200 100 = 9007199254740992"
proof -
  have b: "bitLength 9007199254740993 = 54" "bitLength 9007199254740992 = 54"
    "bitLength 900719925474099200 = 60" "bitLength 100 = 7"
    by (simp_all add: bitLength.simps)
  have r: "roundHalfEven 9007199254740993 2 = 4503599627370496"
    "roundHalfEven 900719925474099200 128 = 7036874417766400"
    "roundHalfEven 900719925474099200 200 = 4503599627370496"
    by (simp_all add: roundHalfEven_def Let_def)
  have e: "quotientExponent 900719925474099200 100 = 1"
    by (simp add: quotientExponent_def Let_def b)
  show "toDouble 100 = Some 100" by (simp add: toDouble_exact)
  show "toDouble 9007199254740993 = Some 9007199254740992"
    by (simp add: toDouble_def Let_def b r)
  show "toDouble 900719925474099200 = Some 900719925474099200"
    by (simp add: toDouble_def Let_def b r)
  show "ceilOfQuotient 900719925474099200 100 = 9007199254740992"
    by (simp add: ceilOfQuotient_def Let_def e r)
qed

theorem validateCollateral_rounded_fee:
  "isSmart demoEnv (witnesses demoTxHugeFee)
   \<and> validateCollateral demoEnv demoParamsPct100 demoTxHugeFee = Inr []
   \<and> fee (body demoTxHugeFee) = 9007199254740993
   \<and> sum_list (map collateralLovelace (collateral (body demoTxHugeFee)))
       - collateralReturnLovelace (body demoTxHugeFee) = 9007199254740992
   \<and> minCollateralOf 100 (fee (body demoTxHugeFee)) = Some 9007199254740992
   \<and> exactCeilPct 100 (fee (body demoTxHugeFee)) = 9007199254740993"
proof -
  have h: "maxCollateralInputsParam demoParamsPct100 = Some 3"
    "collateralPercentage demoParamsPct100 = Some 100"
    by (simp_all add: demoParamsPct100_def demoParams_def)
  have s: "isSmart demoEnv (witnesses demoTxHugeFee)"
    by (simp add: demoEnv_def demoTxHugeFee_def emptyWitnesses_def)
  have f: "fee (body demoTxHugeFee) = 9007199254740993"
    by (simp add: demoTxHugeFee_def emptyBody_def)
  have m: "minCollateralOf 100 (fee (body demoTxHugeFee)) = Some 9007199254740992"
    by (simp add: f minCollateralOf_def demo_rounding)
  have c: "exactCeilPct 100 (fee (body demoTxHugeFee)) = 9007199254740993"
    by (simp add: f exactCeilPct_def)
  have n: "length (collateral (body demoTxHugeFee)) = 1"
    "sum_list (map collateralLovelace (collateral (body demoTxHugeFee)))
       - collateralReturnLovelace (body demoTxHugeFee) = 9007199254740992"
    by (simp_all add: demoTxHugeFee_def emptyBody_def collateralLovelace_def
        setLovelace_def demoOutput_def collateralReturnLovelace_def)
  have sum: "sumCollateral (newValue 0) (collateral (body demoTxHugeFee))
      = Inr \<lparr>lovelace = 9007199254740992, assets = []\<rparr>"
    by (simp add: demoTxHugeFee_def emptyBody_def setLovelace_def demoOutput_def
        Assets_isZero_def newValue_def Value_add_def assetsMerge_def)
  have le: "int (length (collateral (body demoTxHugeFee))) \<le> 3" by (simp add: n)
  have v: "validateCollateral demoEnv demoParamsPct100 demoTxHugeFee = Inr []"
    by (simp add: validateCollateral_smart [OF h le s m sum] n)
  show ?thesis using s v f n m c by simp
qed

subsection \<open>Tx.validateScriptsPresent\<close>

lemma setOf_distinct: "distinct xs \<Longrightarrow> setOf xs = xs"
  by (simp add: setOf_def distinct_remdups_id)

lemma length_setOf: "(length xs = length (setOf xs)) = distinct xs"
proof -
  have "(length (rev xs) = length (remdups (rev xs))) = distinct (rev xs)"
    by (metis length_remdups_eq remdups_id_iff_distinct)
  then show ?thesis by (simp add: setOf_def)
qed

lemma set_setOf: "set (setOf xs) = set xs"
  by (simp add: setOf_def)

lemma find_None_subset: "(find (\<lambda>h. h \<notin> A) xs = None) = (set xs \<subseteq> A)"
  by (auto simp: find_None_iff)

lemma case_find_Inr:
  "((case find P xs of Some h \<Rightarrow> Inl (E h) | None \<Rightarrow> X) = Inr u)
     = (find P xs = None \<and> X = Inr u)"
  by (cases "find P xs") simp_all

lemma validateScriptsPresent_passes:
  "(validateScriptsPresent env strict tx = Inr ())
     = (distinct (map programHash (allScripts (witnesses tx)))
        \<and> length (allScripts (witnesses tx)) \<le> length (allScriptHashes env (body tx))
        \<and> set (allScriptHashes env (body tx)) \<subseteq> programHash ` set (allScripts (witnesses tx))
        \<and> (strict \<longrightarrow>
             programHash ` set (allScripts (witnesses tx)) \<subseteq> set (allScriptHashes env (body tx))))"
proof (cases "distinct (map programHash (allScripts (witnesses tx)))")
  case False
  then show ?thesis
    using length_setOf [of "map programHash (allScripts (witnesses tx))"]
    by (simp add: validateScriptsPresent_def Let_def)
next
  case True
  then have e: "setOf (map programHash (allScripts (witnesses tx)))
                  = map programHash (allScripts (witnesses tx))"
    by (rule setOf_distinct)
  show ?thesis
  proof (cases "length (allScriptHashes env (body tx)) < length (allScripts (witnesses tx))")
    case lt: True
    then show ?thesis by (simp add: validateScriptsPresent_def Let_def e)
  next
    case ge: False
    show ?thesis
      using True ge
      by (cases strict)
         (simp_all add: validateScriptsPresent_def Let_def e case_find_Inr find_None_subset
           not_less)
  qed
qed

lemma validateScriptsPresent_too_many:
  assumes "distinct (map programHash (allScripts (witnesses tx)))"
    and "length (allScriptHashes env (body tx)) < length (allScripts (witnesses tx))"
  shows "validateScriptsPresent env strict tx = Inl TooManyScripts"
  using assms by (simp add: validateScriptsPresent_def Let_def setOf_distinct)

text \<open>
  Claim C8, at the input where the code departs from it. A transaction that requires no
  script and attaches one, checked with strict mode off: the check does not pass, it
  fails with the error for too many scripts. The count of required hashes is compared
  with the count of attached scripts before, and regardless of, the strict flag.
\<close>

theorem validateScriptsPresent_unused_nonstrict:
  "allScripts (witnesses demoTxSmart) = [demoScript]
   \<and> allScriptHashes demoEnv (body demoTxSmart) = []
   \<and> validateScriptsPresent demoEnv False demoTxSmart = Inl TooManyScripts"
  by (simp add: validateScriptsPresent_def Let_def setOf_def demoTxSmart_def demoEnv_def
      emptyBody_def emptyWitnesses_def List.map_filter_def)

subsection \<open>Tx.validateConservation\<close>

lemma map_of_pruned:
  "map_of (filter (\<lambda>(k, q). q \<noteq> 0) (map (\<lambda>k. (k, g k)) ks)) k
     = (if k \<in> set ks \<and> g k \<noteq> (0::int) then Some (g k) else None)"
  by (induction ks) auto

lemma assetQty_Nil: "assetQty [] k = 0"
  by (simp add: assetQty_def)

lemma assetQty_notin: "k \<notin> fst ` set a \<Longrightarrow> assetQty a k = 0"
  by (simp add: assetQty_def map_of_eq_None_iff [THEN iffD2])

lemma assetQty_pruned:
  "assetQty (filter (\<lambda>(k, q). q \<noteq> 0) (map (\<lambda>k. (k, g k)) ks)) k
     = (if k \<in> set ks then g k else 0)"
  by (simp add: assetQty_def map_of_pruned)

lemma assetQty_merge:
  assumes "f 0 0 = 0"
  shows "assetQty (assetsMerge f a b) k = f (assetQty a k) (assetQty b k)"
proof (cases "k \<in> fst ` set a \<union> fst ` set b")
  case True
  then show ?thesis by (simp add: assetsMerge_def assetQty_pruned)
next
  case False
  then have "assetQty a k = 0" "assetQty b k = 0" by (simp_all add: assetQty_notin)
  with False assms show ?thesis by (simp add: assetsMerge_def assetQty_pruned)
qed

lemma merge_isZero:
  assumes "f 0 0 = 0"
  shows "(assetsMerge f a b = []) = (\<forall>k. assetQty (assetsMerge f a b) k = 0)"
proof
  assume "assetsMerge f a b = []"
  then show "\<forall>k. assetQty (assetsMerge f a b) k = 0" by (simp add: assetQty_Nil)
next
  assume z: "\<forall>k. assetQty (assetsMerge f a b) k = 0"
  have "assetQty (assetsMerge f a b) k = f (assetQty a k) (assetQty b k)" for k
    using assms by (rule assetQty_merge)
  with z have "\<forall>k. f (assetQty a k) (assetQty b k) = 0" by simp
  then show "assetsMerge f a b = []" by (auto simp: assetsMerge_def filter_empty_conv)
qed

lemma pruned_add: "pruned (Value_add a b)"
  using merge_isZero [of "(+)"] by (simp add: pruned_def Value_add_def)

lemma pruned_subtract: "pruned (Value_subtract a b)"
  using merge_isZero [of "(-)"] by (simp add: pruned_def Value_subtract_def)

lemma lovelace_add: "lovelace (Value_add a b) = lovelace a + lovelace b"
  by (simp add: Value_add_def)

lemma lovelace_subtract: "lovelace (Value_subtract a b) = lovelace a - lovelace b"
  by (simp add: Value_subtract_def)

lemma qty_add:
  "assetQty (assets (Value_add a b)) k = assetQty (assets a) k + assetQty (assets b) k"
  by (simp add: Value_add_def assetQty_merge)

lemma qty_subtract:
  "assetQty (assets (Value_subtract a b)) k = assetQty (assets a) k - assetQty (assets b) k"
  by (simp add: Value_subtract_def assetQty_merge)

lemma newValue_simps: "lovelace (newValue n) = n" "assets (newValue n) = []"
  by (simp_all add: newValue_def)

lemmas Value_simps =
  assetQty_Nil pruned_add pruned_subtract lovelace_add lovelace_subtract qty_add qty_subtract
  newValue_simps

lemma foldl_pruned:
  assumes "\<And>v x. pruned v \<Longrightarrow> pruned (f v x)" and "pruned v"
  shows "pruned (foldl f v xs)"
  using assms(2) by (induction xs arbitrary: v) (simp_all add: assms(1))

lemma sumInputs_Inr:
  assumes "\<forall>inp\<in>set inps. origOutput inp \<noteq> None"
  shows "\<exists>v'. sumInputs v inps = Inr v'
            \<and> lovelace v' = lovelace v + sum_list (map inputLovelace inps)
            \<and> (\<forall>k. assetQty (assets v') k
                   = assetQty (assets v) k + sum_list (map (inputQty k) inps))"
  using assms
proof (induction inps arbitrary: v)
  case Nil
  then show ?case by simp
next
  case (Cons inp inps)
  then obtain out where out: "origOutput inp = Some out" by auto
  from Cons.prems have "\<forall>i\<in>set inps. origOutput i \<noteq> None" by simp
  from Cons.IH [OF this, of "Value_add (ovalue out) v"]
  show ?case by (auto simp: inputValue_def out inputLovelace_def inputQty_def Value_simps)
qed

lemma foldl_dereg:
  "lovelace (foldl (\<lambda>prev d. if isDeregister d then Value_add prev (newValue dep) else prev) v ds)
     = lovelace v + dep * int (length (filter isDeregister ds))
   \<and> assetQty (assets (foldl (\<lambda>prev d. if isDeregister d then Value_add prev (newValue dep)
                                       else prev) v ds)) k
     = assetQty (assets v) k"
  by (induction ds arbitrary: v) (simp_all add: algebra_simps Value_simps)

lemma foldl_reg:
  "lovelace (foldl (\<lambda>prev d. if isRegister d then Value_subtract prev (newValue dep) else prev) v ds)
     = lovelace v - dep * int (length (filter isRegister ds))
   \<and> assetQty (assets (foldl (\<lambda>prev d. if isRegister d then Value_subtract prev (newValue dep)
                                       else prev) v ds)) k
     = assetQty (assets v) k"
  by (induction ds arbitrary: v) (simp_all add: algebra_simps Value_simps)

lemma foldl_outputs:
  "lovelace (foldl (\<lambda>prev out. Value_subtract prev (ovalue out)) v outs)
     = lovelace v - sum_list (map (\<lambda>out. lovelace (ovalue out)) outs)
   \<and> assetQty (assets (foldl (\<lambda>prev out. Value_subtract prev (ovalue out)) v outs)) k
     = assetQty (assets v) k - sum_list (map (\<lambda>out. assetQty (assets (ovalue out)) k) outs)"
  by (induction outs arbitrary: v) (simp_all add: algebra_simps Value_simps)

lemma validateConservation_eq:
  assumes dep: "stakeAddressDepositParam params = Some deposit"
    and res: "\<forall>inp\<in>set (inputs (body tx)). origOutput inp \<noteq> None"
  shows "validateConservation params tx
           = (if netLovelace deposit (body tx) \<noteq> 0
              then Inl (NotBalancedLovelace (netLovelace deposit (body tx)))
              else if \<exists>k. netQty (body tx) k \<noteq> 0 then Inl NotBalancedAssets
              else Inr ())"
proof -
  obtain v1 where v1: "sumInputs (newValue 0) (inputs (body tx)) = Inr v1"
    and l1: "lovelace v1 = sum_list (map inputLovelace (inputs (body tx)))"
    and q1: "\<And>k. assetQty (assets v1) k = sum_list (map (inputQty k) (inputs (body tx)))"
    using sumInputs_Inr [OF res, of "newValue 0"] by (auto simp: Value_simps)
  define v2 where "v2 = foldl (\<lambda>prev dcert.
      if isDeregister dcert then Value_add prev (newValue deposit) else prev) v1 (dcerts (body tx))"
  define v3 where "v3 = Value_subtract v2 (newValue (fee (body tx)))"
  define v4 where "v4 = Value_add v3 \<lparr>lovelace = 0, assets = minted (body tx)\<rparr>"
  define v5 where "v5 = foldl (\<lambda>prev out. Value_subtract prev (ovalue out)) v4 (outputs (body tx))"
  define v6 where "v6 = foldl (\<lambda>prev dcert.
      if isRegister dcert then Value_subtract prev (newValue deposit) else prev) v5 (dcerts (body tx))"
  have v: "validateConservation params tx
             = (if lovelace v6 \<noteq> 0 then Inl (NotBalancedLovelace (lovelace v6))
                else if \<not> Assets_isZero (assets v6) then Inl NotBalancedAssets
                else Inr ())"
    by (simp add: validateConservation_def stakeAddressDeposit_def expectSome_def dep v1 Let_def
        v2_def v3_def v4_def v5_def v6_def)
  have l: "lovelace v6 = netLovelace deposit (body tx)"
    by (simp add: v6_def v5_def v4_def v3_def v2_def foldl_reg foldl_outputs foldl_dereg l1
        netLovelace_def Value_simps)
  have q: "assetQty (assets v6) k = netQty (body tx) k" for k
    by (simp add: v6_def v5_def v4_def v3_def v2_def foldl_reg foldl_outputs foldl_dereg q1
        netQty_def Value_simps)
  have "pruned v4" by (simp add: v4_def pruned_add)
  then have "pruned v5" unfolding v5_def by (intro foldl_pruned) (simp_all add: pruned_subtract)
  then have "pruned v6" unfolding v6_def by (intro foldl_pruned) (simp_all add: pruned_subtract)
  then have z: "Assets_isZero (assets v6) = (\<forall>k. netQty (body tx) k = 0)"
    by (simp add: pruned_def Assets_isZero_def q)
  show ?thesis by (simp add: v l z)
qed

lemma sum_list_map_update:
  "i < length xs \<Longrightarrow>
     sum_list (map f (xs[i := y])) = sum_list (map f xs) - f (xs ! i) + (f y :: int)"
proof (induction xs arbitrary: i)
  case Nil
  then show ?case by simp
next
  case (Cons x xs)
  then show ?case by (cases i) simp_all
qed

lemma netLovelace_bump:
  assumes "i < length (outputs (body tx))"
  shows "netLovelace deposit (body (bumpOutput i d tx)) = netLovelace deposit (body tx) - d"
  using assms sum_list_map_update [of i "outputs (body tx)" "\<lambda>out. lovelace (ovalue out)"]
  by (simp add: netLovelace_def bumpOutput_def setLovelace_def)

text \<open>
  Claim C3. On a snapshot that gives the stake address deposit, for a transaction whose
  inputs are resolved: the conservation check passes exactly when the sum of the input
  values, plus the deposit for every deregistration certificate, minus the fee, plus the
  minted assets, minus the sum of the output values, minus the deposit for every
  registration certificate, is zero in lovelace and in every asset. Changing the lovelace
  of any one output of a transaction that passes, by any amount but zero, makes the
  check fail with the net lovelace in the error.
\<close>

theorem validateConservation_spec:
  assumes dep: "stakeAddressDepositParam params = Some deposit"
    and res: "\<forall>inp\<in>set (inputs (body tx)). origOutput inp \<noteq> None"
  shows "(validateConservation params tx = Inr ())
           = (netLovelace deposit (body tx) = 0 \<and> (\<forall>k. netQty (body tx) k = 0))
       \<and> (\<forall>i d. validateConservation params tx = Inr () \<longrightarrow> i < length (outputs (body tx))
              \<longrightarrow> d \<noteq> 0
              \<longrightarrow> validateConservation params (bumpOutput i d tx)
                    = Inl (NotBalancedLovelace (- d)))"
proof -
  have res': "\<forall>inp\<in>set (inputs (body (bumpOutput i d tx))). origOutput inp \<noteq> None" for i d
    using res by (simp add: bumpOutput_def)
  show ?thesis
    by (simp add: validateConservation_eq [OF dep res] validateConservation_eq [OF dep res']
        netLovelace_bump)
qed

theorem validateConservation_spec_witness:
  "validateConservation demoParams demoTxBalanced = Inr ()
   \<and> netLovelace 2000000 (body demoTxBalanced) = 0
   \<and> netQty (body demoTxBalanced) demoAsset = 0
   \<and> validateConservation demoParams (bumpOutput 0 1 demoTxBalanced)
       = Inl (NotBalancedLovelace (- 1))"
proof -
  have dep: "stakeAddressDepositParam demoParams = Some 2000000"
    by (simp add: demoParams_def)
  have res: "\<forall>inp\<in>set (inputs (body demoTxBalanced)). origOutput inp \<noteq> None"
    by (simp add: demoTxBalanced_def emptyBody_def)
  have l: "netLovelace 2000000 (body demoTxBalanced) = 0"
    by (simp add: netLovelace_def demoTxBalanced_def emptyBody_def inputLovelace_def)
  have q: "netQty (body demoTxBalanced) k = 0" for k
    by (simp add: netQty_def demoTxBalanced_def emptyBody_def inputQty_def assetQty_def)
  have n: "0 < length (outputs (body demoTxBalanced))"
    by (simp add: demoTxBalanced_def emptyBody_def)
  note spec = validateConservation_spec [OF dep res]
  from spec l q have ok: "validateConservation demoParams demoTxBalanced = Inr ()" by simp
  with spec n have "validateConservation demoParams (bumpOutput 0 1 demoTxBalanced)
       = Inl (NotBalancedLovelace (- 1))"
    by (metis zero_neq_one)
  with ok l q show ?thesis by simp
qed

subsection \<open>calcScriptDataHash and Tx.validateScriptDataHash\<close>

lemma compareBytes_eq: "(compareBytes a b = 0) = (a = b)"
  by (induction a b rule: compareBytes.induct) auto

text \<open>
  Claim C5. With a cost model in the snapshot, the script data hash of a non-empty
  redeemer list is the hash of: the definite-length list of the encoded redeemers, then,
  only when there is a datum, the encoding of the datum list, then the one-entry map from
  the key 1 to the list of the cost model's values, in the ascending order of their
  parameter names. Computing it for no redeemer is an error. The check of a transaction
  fails when it has redeemers and no hash field, when it has the field and no redeemer,
  and when the recomputed hash is not, byte for byte, the field; it passes otherwise.
\<close>

theorem calcScriptDataHash_spec:
  assumes cm: "costModelPlutusScriptV2 params = Some model"
  shows "calcScriptDataHash env params ds [] = Inl NoRedeemers
       \<and> calcScriptDataHash env params ds (r # rs)
           = Inr (blake2b env
               (encodeDefList (map (redeemerToCbor env) (r # rs)) @
                (if ds = [] then [] else listDataToCbor env ds) @
                encodeMap
                  [(encodeInt 1,
                    encodeDefList
                      (map (\<lambda>key. encodeInt (lookupParam model key)) (sort (map fst model))))]))
       \<and> validateScriptDataHash env params tx
           = (case (redeemers (witnesses tx), scriptDataHash (body tx)) of
                ([], None) \<Rightarrow> Inr ()
              | ([], Some h) \<Rightarrow> Inl UnexpectedScriptDataHash
              | (r' # rs', None) \<Rightarrow> Inl NoScriptDataHash
              | (r' # rs', Some h) \<Rightarrow>
                  if calcScriptDataHash env params (datums (witnesses tx)) (r' # rs') = Inr h
                  then Inr () else Inl WrongScriptDataHash)"
proof -
  have s: "sortedV2CostParams params = Inr (map (lookupParam model) (sort (map fst model)))"
    by (simp add: sortedV2CostParams_def cm)
  have c: "calcScriptDataHash env params ds' (r' # rs')
           = Inr (blake2b env
               (encodeDefList (map (redeemerToCbor env) (r' # rs')) @
                (if ds' = [] then [] else listDataToCbor env ds') @
                encodeMap
                  [(encodeInt 1,
                    encodeDefList
                      (map (\<lambda>key. encodeInt (lookupParam model key)) (sort (map fst model))))]))"
    for ds' r' rs'
    by (simp add: calcScriptDataHash_def s Let_def comp_def)
  have e: "calcScriptDataHash env params ds [] = Inl NoRedeemers"
    by (simp add: calcScriptDataHash_def)
  have v: "validateScriptDataHash env params tx
           = (case (redeemers (witnesses tx), scriptDataHash (body tx)) of
                ([], None) \<Rightarrow> Inr ()
              | ([], Some h) \<Rightarrow> Inl UnexpectedScriptDataHash
              | (r' # rs', None) \<Rightarrow> Inl NoScriptDataHash
              | (r' # rs', Some h) \<Rightarrow>
                  if calcScriptDataHash env params (datums (witnesses tx)) (r' # rs') = Inr h
                  then Inr () else Inl WrongScriptDataHash)"
  proof (cases "redeemers (witnesses tx)")
    case Nil
    then show ?thesis by (simp add: validateScriptDataHash_def split: option.splits)
  next
    case (Cons r' rs')
    then show ?thesis
      by (cases "scriptDataHash (body tx)")
         (simp_all add: validateScriptDataHash_def c compareBytes_eq)
  qed
  from e c [of ds r rs] v show ?thesis by simp
qed

lemma demo_sorted: "sort (map fst [(''b'', 2::int), (''a'', 1)]) = [''a'', ''b'']"
  by simp

theorem calcScriptDataHash_spec_witness:
  "calcScriptDataHash demoEnv demoParams [IntData 7] [demoRedeemer] = Inr [170]
   \<and> validateScriptDataHash demoEnv demoParams demoTxScript = Inr ()
   \<and> scriptDataHash (body demoTxScript) = Some [170]"
proof -
  have cm: "costModelPlutusScriptV2 demoParams = Some [(''b'', 2), (''a'', 1)]"
    by (simp add: demoParams_def)
  note spec = calcScriptDataHash_spec [OF cm, of demoEnv "[IntData 7]" demoRedeemer "[]" demoTxScript]
  have h: "blake2b demoEnv
               (encodeDefList (map (redeemerToCbor demoEnv) [demoRedeemer]) @
                (if [IntData 7] = [] then [] else listDataToCbor demoEnv [IntData 7]) @
                encodeMap
                  [(encodeInt 1,
                    encodeDefList
                      (map (\<lambda>key. encodeInt (lookupParam [(''b'', 2), (''a'', 1)] key))
                         (sort (map fst [(''b'', 2::int), (''a'', 1)]))))]) = [170]"
    unfolding demo_sorted
    by (simp add: demoEnv_def demoRedeemer_def lookupParam_def encodeDefList_def encodeMap_def
        encodeTuple_def encodeInt_def encodeDefHead_def)
  from spec h have c: "calcScriptDataHash demoEnv demoParams [IntData 7] [demoRedeemer] = Inr [170]"
    by simp
  have t: "redeemers (witnesses demoTxScript) = [demoRedeemer]"
    "datums (witnesses demoTxScript) = [IntData 7]"
    "scriptDataHash (body demoTxScript) = Some [170]"
    by (simp_all add: demoTxScript_def emptyWitnesses_def emptyBody_def)
  from spec c t have "validateScriptDataHash demoEnv demoParams demoTxScript = Inr ()"
    by simp
  with c t show ?thesis by simp
qed

subsection \<open>Tx.validateRedeemersExBudget\<close>

lemma forEach_Inr: "(forEach f xs = Inr ()) = (\<forall>x\<in>set xs. f x = Inr ())"
  by (induction xs) (auto split: sum.splits)

text \<open>
  Claim C4, as the code has it. The check passes exactly when every redeemer passes. A
  spending redeemer, whose input, script and datum are found, runs the script on the
  datum, the redeemer data and the script context, and fails exactly when the memory or
  the step cost reported is above the declared one, naming the input; a minting redeemer,
  whose policy and script are found, runs the script on the redeemer data and the script
  context, and fails likewise, naming the policy; a cost equal to the budget passes. A
  redeemer of any other purpose (certificate, withdrawal) is not run at all: it is
  rejected as unhandled.
\<close>

theorem validateRedeemersExBudget_spec:
  fixes env params tx r
  defines "txData \<equiv> toTxUplcData env params (body tx) (redeemers (witnesses tx))
                       (datums (witnesses tx))"
  shows "(validateRedeemersExBudget env params tx = Inr ())
           = (\<forall>x\<in>set (redeemers (witnesses tx)). checkRedeemer env tx txData x = Inr ())
       \<and> (kind r = Spending \<longrightarrow> nth_opt (inputs (body tx)) (index r) = Some utxo
            \<longrightarrow> origOutput utxo = Some out \<longrightarrow> validatorHash (address out) = Some vh
            \<longrightarrow> findUplcProgram env (witnesses tx) vh = Some script
            \<longrightarrow> datum out = Some dt \<longrightarrow> dataOfDatum dt = Some d
            \<longrightarrow> c = evalProgram env script
                      [d, rdata r, spendingContext env r (utxoId utxo) txData]
            \<longrightarrow> checkRedeemer env tx txData r
                  = (if mem (cost r) < mem c
                     then Inl (SpendingMemTooHigh (utxoId utxo) (mem (cost r)) (mem c))
                     else if cpu (cost r) < cpu c
                     then Inl (SpendingCpuTooHigh (utxoId utxo) (cpu (cost r)) (cpu c))
                     else Inr ()))
       \<and> (kind r = Minting \<longrightarrow> nth_opt (getPolicies (minted (body tx))) (index r) = Some mph
            \<longrightarrow> findUplcProgram env (witnesses tx) mph = Some script'
            \<longrightarrow> c' = evalProgram env script' [rdata r, mintingContext env r mph txData]
            \<longrightarrow> checkRedeemer env tx txData r
                  = (if mem (cost r) < mem c'
                     then Inl (MintingMemTooHigh mph (mem (cost r)) (mem c'))
                     else if cpu (cost r) < cpu c'
                     then Inl (MintingCpuTooHigh mph (cpu (cost r)) (cpu c'))
                     else Inr ()))
       \<and> (kind r = Certifying \<or> kind r = Rewarding \<longrightarrow>
            checkRedeemer env tx txData r = Inl UnhandledRedeemerKind)"
proof -
  have a: "(validateRedeemersExBudget env params tx = Inr ())
           = (\<forall>x\<in>set (redeemers (witnesses tx)). checkRedeemer env tx txData x = Inr ())"
    by (simp add: validateRedeemersExBudget_def txData_def forEach_Inr)
  have s: "checkRedeemer env tx txData r
                  = (if mem (cost r) < mem c
                     then Inl (SpendingMemTooHigh (utxoId utxo) (mem (cost r)) (mem c))
                     else if cpu (cost r) < cpu c
                     then Inl (SpendingCpuTooHigh (utxoId utxo) (cpu (cost r)) (cpu c))
                     else Inr ())"
    if "kind r = Spending" "nth_opt (inputs (body tx)) (index r) = Some utxo"
      "origOutput utxo = Some out" "validatorHash (address out) = Some vh"
      "findUplcProgram env (witnesses tx) vh = Some script"
      "datum out = Some dt" "dataOfDatum dt = Some d"
      "c = evalProgram env script [d, rdata r, spendingContext env r (utxoId utxo) txData]"
    using that by (simp add: checkRedeemer_def isSpending_def checkSpending_def Let_def)
  have m: "checkRedeemer env tx txData r
                  = (if mem (cost r) < mem c'
                     then Inl (MintingMemTooHigh mph (mem (cost r)) (mem c'))
                     else if cpu (cost r) < cpu c'
                     then Inl (MintingCpuTooHigh mph (cpu (cost r)) (cpu c'))
                     else Inr ())"
    if "kind r = Minting" "nth_opt (getPolicies (minted (body tx))) (index r) = Some mph"
      "findUplcProgram env (witnesses tx) mph = Some script'"
      "c' = evalProgram env script' [rdata r, mintingContext env r mph txData]"
    using that
    by (simp add: checkRedeemer_def isSpending_def isMinting_def checkMinting_def Let_def)
  have u: "checkRedeemer env tx txData r = Inl UnhandledRedeemerKind"
    if "kind r = Certifying \<or> kind r = Rewarding"
    using that by (auto simp: checkRedeemer_def isSpending_def isMinting_def)
  from a s m u show ?thesis by blast
qed

text \<open>A certificate redeemer whose declared budget is the maximum of the network makes
  the check fail, whatever the script would cost.\<close>

theorem validateRedeemersExBudget_certifying:
  "redeemers (witnesses demoTxCertifying)
     = [\<lparr>kind = Certifying, index = 0, rdata = IntData 42,
         cost = \<lparr>mem = 14000000, cpu = 10000000000\<rparr>\<rparr>]
   \<and> validateRedeemersExBudget demoEnv demoParams demoTxCertifying = Inl UnhandledRedeemerKind"
  by (simp add: demoTxCertifying_def demoTxScript_def emptyWitnesses_def
      validateRedeemersExBudget_def checkRedeemer_def isSpending_def isMinting_def)

lemma demo_lookups:
  "nth_opt (inputs (body demoTxScript)) 0 = Some demoScriptInput"
  "nth_opt (inputs (body demoTxOverBudget)) 0 = Some demoScriptInput"
  "findUplcProgram demoEnv (witnesses demoTxScript) (replicate 28 7) = Some demoScript"
  "findUplcProgram demoEnv (witnesses demoTxOverBudget) (replicate 28 7) = Some demoScript"
  "evalProgram demoEnv demoScript [a1, a2, a3] = \<lparr>mem = 700, cpu = 3000\<rparr>"
  "redeemers (witnesses demoTxScript) = [demoRedeemer]"
  "redeemers (witnesses demoTxOverBudget) = [demoRedeemer\<lparr>cost := \<lparr>mem = 699, cpu = 3000\<rparr>\<rparr>]"
  by (simp_all add: nth_opt_def demoTxScript_def demoTxOverBudget_def emptyBody_def
      emptyWitnesses_def demoEnv_def demoScript_def)

theorem validateRedeemersExBudget_spec_witness:
  "validateRedeemersExBudget demoEnv demoParams demoTxScript = Inr ()
   \<and> cost demoRedeemer = \<lparr>mem = 700, cpu = 3000\<rparr>
   \<and> validateRedeemersExBudget demoEnv demoParams demoTxOverBudget
       = Inl (SpendingMemTooHigh (replicate 32 9, 2) 699 700)"
proof -
  let ?out = "\<lparr>address = \<lparr>addressBytes = replicate 29 1,
                     spendingCredential = ValidatorCredential (replicate 28 7)\<rparr>,
         ovalue = \<lparr>lovelace = 3000000, assets = []\<rparr>,
         datum = Some (InlineDatum (IntData 7)), refScript = None\<rparr>"
  have o: "origOutput demoScriptInput = Some ?out" "utxoId demoScriptInput = (replicate 32 9, 2)"
    by (simp_all add: demoScriptInput_def)
  have r: "kind demoRedeemer = Spending" "index demoRedeemer = 0"
    "cost demoRedeemer = \<lparr>mem = 700, cpu = 3000\<rparr>"
    by (simp_all add: demoRedeemer_def)
  let ?r2 = "demoRedeemer\<lparr>cost := \<lparr>mem = 699, cpu = 3000\<rparr>\<rparr>"
  note s1 = validateRedeemersExBudget_spec [where env = demoEnv and params = demoParams
      and tx = demoTxScript and r = demoRedeemer and utxo = demoScriptInput and out = ?out
      and vh = "replicate 28 7" and script = demoScript and dt = "InlineDatum (IntData 7)"
      and d = "IntData 7" and c = "\<lparr>mem = 700, cpu = 3000\<rparr>"]
  note s2 = validateRedeemersExBudget_spec [where env = demoEnv and params = demoParams
      and tx = demoTxOverBudget and r = ?r2 and utxo = demoScriptInput and out = ?out
      and vh = "replicate 28 7" and script = demoScript and dt = "InlineDatum (IntData 7)"
      and d = "IntData 7" and c = "\<lparr>mem = 700, cpu = 3000\<rparr>"]
  have c1: "checkRedeemer demoEnv demoTxScript
              (toTxUplcData demoEnv demoParams (body demoTxScript)
                 (redeemers (witnesses demoTxScript)) (datums (witnesses demoTxScript)))
              demoRedeemer = Inr ()"
    using s1 by (simp add: demo_lookups o validatorHash_def r)
  have ok: "validateRedeemersExBudget demoEnv demoParams demoTxScript = Inr ()"
    using s1 c1 by (simp add: demo_lookups)
  have c2: "checkRedeemer demoEnv demoTxOverBudget
              (toTxUplcData demoEnv demoParams (body demoTxOverBudget)
                 (redeemers (witnesses demoTxOverBudget)) (datums (witnesses demoTxOverBudget)))
              ?r2 = Inl (SpendingMemTooHigh (replicate 32 9, 2) 699 700)"
    using s2 by (simp add: demo_lookups o validatorHash_def r)
  have bad: "validateRedeemersExBudget demoEnv demoParams demoTxOverBudget
       = Inl (SpendingMemTooHigh (replicate 32 9, 2) 699 700)"
    using c2 by (simp add: validateRedeemersExBudget_def demo_lookups)
  from ok bad r show ?thesis by simp
qed

end
